theory Spec2Isabelle
  imports Main "HOL-Library.Word"
begin

section \<open>The create-non-fungible-unit built-in function (dctNFTCreate)\<close>

text \<open>
  A shallow embedding of \<^verbatim>\<open>ProcessBuiltinFunction\<close> of \<^verbatim>\<open>dctNFTCreate\<close> and of the
  helpers it calls (\<^verbatim>\<open>getLatestNonce\<close>, \<^verbatim>\<open>saveLatestNonce\<close>, \<^verbatim>\<open>getNonceKey\<close>,
  \<^verbatim>\<open>getAccount\<close>, \<^verbatim>\<open>checkDCTNFTCreateBurnAddInput\<close>). Go's \<^verbatim>\<open>uint64\<close> and \<^verbatim>\<open>uint32\<close> are
  words, \<^verbatim>\<open>*big.Int\<close> is \<open>int\<close>, \<^verbatim>\<open>[]byte\<close> is a list of 8-bit words, an \<^verbatim>\<open>error\<close> is a
  value of \<open>vm_error\<close>, and every mutation of an account or of a collaborator is a new
  value of the account or of the \<open>world\<close> record that the function returns.
\<close>

subsection \<open>Bytes, unsigned integers and big integers\<close>

type_synonym byte = "8 word"
type_synonym bytes = "byte list"
type_synonym u64 = "64 word"
type_synonym u32 = "32 word"

text \<open>\<^verbatim>\<open>big.NewInt(0).SetBytes(b)\<close>: the bytes read as a big-endian unsigned integer.\<close>

definition SetBytes :: "bytes \<Rightarrow> nat" where
  "SetBytes b = foldl (\<lambda>acc x. acc * 256 + unat x) 0 b"

text \<open>\<^verbatim>\<open>x.Bytes()\<close>: the shortest big-endian encoding of the absolute value; zero is the
  empty slice.\<close>

fun Bytes :: "nat \<Rightarrow> bytes" where
  "Bytes n = (if n = 0 then [] else Bytes (n div 256) @ [of_nat (n mod 256)])"

declare Bytes.simps [simp del]

text \<open>\<^verbatim>\<open>x.Uint64()\<close>: the low 64 bits of the absolute value.\<close>

definition Uint64 :: "nat \<Rightarrow> u64" where
  "Uint64 n = of_nat n"

text \<open>\<^verbatim>\<open>big.NewInt(0).SetUint64(n)\<close>.\<close>

definition SetUint64 :: "u64 \<Rightarrow> nat" where
  "SetUint64 n = unat n"

subsection \<open>Errors\<close>

text \<open>The sentinel errors of the package that the function can return, the errors that
  the collaborators report (opaque to this code), and \<^verbatim>\<open>fmt.Errorf\<close> with a \<^verbatim>\<open>%w\<close> verb,
  which wraps a sentinel: the format string, the wrapped error and the remaining
  arguments.\<close>

datatype vm_error =
    ErrInvalidArguments
  | ErrInvalidAddressLength
  | ErrInvalidRcvAddr
  | ErrNotEnoughGas
  | ErrNilUserAccount
  | ErrWrongTypeAssertion
  | ErrActionNotAllowed
  | ErrCollaborator string
  | Errorf string vm_error "nat list"


subsection \<open>Accounts and their key-value store\<close>

text \<open>A user account (\<^verbatim>\<open>vmcommon.UserAccountHandler\<close>): its address and its data handler.
  Modelled from the spec: the account data store is an interface only, with
  \<^verbatim>\<open>get(key) \<rightarrow> bytes, found, error\<close> and \<^verbatim>\<open>put(key, bytes) \<rightarrow> error\<close>; the store is a
  map, and the two fault fields say for which requests the store reports an error.\<close>

record account =
  AddressBytes :: bytes
  dataTrie :: "bytes \<rightharpoonup> bytes"
  retrieveFault :: "bytes \<Rightarrow> vm_error option"
  saveFault :: "bytes \<Rightarrow> bytes \<Rightarrow> vm_error option"

definition RetrieveValue :: "account \<Rightarrow> bytes \<Rightarrow> vm_error + bytes" where
  "RetrieveValue acnt key =
     (case retrieveFault acnt key of
        Some err \<Rightarrow> Inl err
      | None \<Rightarrow> Inr (case dataTrie acnt key of None \<Rightarrow> [] | Some v \<Rightarrow> v))"

definition SaveKeyValue :: "account \<Rightarrow> bytes \<Rightarrow> bytes \<Rightarrow> vm_error + account" where
  "SaveKeyValue acnt key val =
     (case saveFault acnt key val of
        Some err \<Rightarrow> Inl err
      | None \<Rightarrow> Inr (acnt\<lparr>dataTrie := (dataTrie acnt)(key \<mapsto> val)\<rparr>))"

text \<open>What \<^verbatim>\<open>LoadAccount\<close> can hand back: the type assertion to a user account succeeds on
  the first kind only.\<close>

datatype AccountHandler = UserAccount account | OtherAccount bytes

subsection \<open>Token units\<close>

record MetaData =
  Nonce :: u64
  Name :: bytes
  Creator :: bytes
  Royalties :: u32
  Hash :: bytes
  Attributes :: bytes
  URIs :: "bytes list"

record DCToken =
  Type :: u32
  Value :: int
  TokenMetaData :: "MetaData option"

subsection \<open>Call and output records\<close>

datatype CallType =
  DirectCall | AsynchronousCall | AsynchronousCallBack | DCTTransferAndExecute | ExecOnDestByCaller

record ContractCallInput =
  CallerAddr :: bytes
  RecipientAddr :: bytes
  CallType :: CallType
  Arguments :: "bytes list"
  GasProvided :: u64
  ReturnCallAfterError :: bool

datatype ReturnCode = Ok | UserError

text \<open>Modelled from the spec: \<^verbatim>\<open>addDCTEntryInVMOutput\<close> is not among the sources. The spec
  (4.2, step 15) has it append one structured event recording the operation name, the
  token identifier, the new nonce, the quantity, the caller address and the (possibly
  absent) serialized payload.\<close>

record LogEntry =
  Identifier :: bytes
  TokenID :: bytes
  EntryNonce :: u64
  Quantity :: int
  Caller :: bytes
  Payload :: bytes

record VMOutput =
  ReturnCode :: ReturnCode
  GasRemaining :: u64
  ReturnData :: "bytes list"
  Logs :: "LogEntry list"

definition addDCTEntryInVMOutput ::
  "VMOutput \<Rightarrow> bytes \<Rightarrow> bytes \<Rightarrow> u64 \<Rightarrow> int \<Rightarrow> bytes \<Rightarrow> bytes \<Rightarrow> VMOutput" where
  "addDCTEntryInVMOutput vmOutput identifier tokenID nonce val caller payload =
     vmOutput\<lparr>Logs := Logs vmOutput @
       [\<lparr>Identifier = identifier, TokenID = tokenID, EntryNonce = nonce, Quantity = val,
         Caller = caller, Payload = payload\<rparr>]\<rparr>"

subsection \<open>The collaborators' state\<close>

text \<open>Modelled from the spec: the accounts adapter (\<^verbatim>\<open>load(address)\<close>, \<^verbatim>\<open>save(account)\<close>) and
  the token storage handler (\<^verbatim>\<open>saveUnit\<close>, \<^verbatim>\<open>addToGlobalSupply\<close>) are interfaces only. The
  adapter is a table from addresses to what loading them gives; the storage handler keeps
  the list of the units it was asked to save and the list of the supply additions, each
  with the arguments of the call. The fault fields say which requests a collaborator
  refuses; a refused request changes nothing.\<close>

record SavedUnit =
  Owner :: bytes
  OwnerAccount :: account
  TokenKey :: bytes
  UnitNonce :: u64
  Unit :: DCToken
  IsCreation :: bool
  IsReturnWithError :: bool

record world =
  accountsDB :: "bytes \<Rightarrow> vm_error + AccountHandler"
  saveAccountFault :: "account \<Rightarrow> vm_error option"
  savedTokens :: "SavedUnit list"
  saveTokenFault :: "SavedUnit \<Rightarrow> vm_error option"
  liquidity :: "(bytes \<times> u64 \<times> int) list"
  liquidityFault :: "bytes \<Rightarrow> u64 \<Rightarrow> int \<Rightarrow> vm_error option"

definition LoadAccount :: "world \<Rightarrow> bytes \<Rightarrow> vm_error + AccountHandler" where
  "LoadAccount s address = accountsDB s address"

definition SaveAccount :: "world \<Rightarrow> account \<Rightarrow> vm_error + world" where
  "SaveAccount s acnt =
     (case saveAccountFault s acnt of
        Some err \<Rightarrow> Inl err
      | None \<Rightarrow> Inr (s\<lparr>accountsDB := (accountsDB s)(AddressBytes acnt := Inr (UserAccount acnt))\<rparr>))"

definition SaveDCTNFTToken ::
  "world \<Rightarrow> bytes \<Rightarrow> account \<Rightarrow> bytes \<Rightarrow> u64 \<Rightarrow> DCToken \<Rightarrow> bool \<Rightarrow> bool \<Rightarrow> vm_error + world" where
  "SaveDCTNFTToken s senderAddress acnt dctTokenKey nonce dctData isCreation isReturnWithError =
     (let u = \<lparr>Owner = senderAddress, OwnerAccount = acnt, TokenKey = dctTokenKey,
                UnitNonce = nonce, Unit = dctData, IsCreation = isCreation,
                IsReturnWithError = isReturnWithError\<rparr>
      in case saveTokenFault s u of
           Some err \<Rightarrow> Inl err
         | None \<Rightarrow> Inr (s\<lparr>savedTokens := savedTokens s @ [u]\<rparr>))"

definition AddToLiquiditySystemAcc :: "world \<Rightarrow> bytes \<Rightarrow> u64 \<Rightarrow> int \<Rightarrow> vm_error + world" where
  "AddToLiquiditySystemAcc s dctTokenKey nonce val =
     (case liquidityFault s dctTokenKey nonce val of
        Some err \<Rightarrow> Inl err
      | None \<Rightarrow> Inr (s\<lparr>liquidity := liquidity s @ [(dctTokenKey, nonce, val)]\<rparr>))"

subsection \<open>The handler\<close>

text \<open>The constants and the helper of the package and of \<^verbatim>\<open>core\<close> that are not among the
  sources are parameters: the nonce key prefix, the two role names, the name of the
  built-in function, the code of the non-fungible type, the longest quantity the length
  check admits, and \<^verbatim>\<open>checkBasicDCTArguments\<close>.\<close>

record pkg =
  noncePrefix :: bytes
  DCTRoleNFTCreate :: bytes
  DCTRoleNFTAddQuantity :: bytes
  BuiltInFunctionDCTNFTCreate :: bytes
  NonFungible :: u32
  maxLenForAddNFTQuantity :: nat
  checkBasicDCTArguments :: "ContractCallInput \<Rightarrow> vm_error option"

text \<open>Modelled from the spec: \<^verbatim>\<open>core.MaxRoyalty\<close> is not among the sources; the spec
  (4.2, step 7) gives the maximum royalty value as 10000.\<close>

definition MaxRoyalty :: u32 where
  "MaxRoyalty = 10000"

text \<open>The fields of \<^verbatim>\<open>dctNFTCreate\<close> that the call reads. The roles handler, the marshaller
  and the epochs handler are interfaces: a function each. The accounts adapter and the
  storage handler act on the \<open>world\<close>.\<close>

record dctNFTCreate =
  keyPrefix :: bytes
  funcGasCost :: u64
  StorePerByte :: u64
  rolesHandler :: "account \<Rightarrow> bytes \<Rightarrow> bytes \<Rightarrow> vm_error option"
  marshaller :: "DCToken \<Rightarrow> vm_error + bytes"
  IsValueLengthCheckFlagEnabled :: bool

definition getNonceKey :: "pkg \<Rightarrow> bytes \<Rightarrow> bytes" where
  "getNonceKey p tokenID = noncePrefix p @ tokenID"

definition getLatestNonce :: "pkg \<Rightarrow> account \<Rightarrow> bytes \<Rightarrow> vm_error + u64" where
  "getLatestNonce p acnt tokenID =
     (let nonceKey = getNonceKey p tokenID
      in case RetrieveValue acnt nonceKey of
           Inl err \<Rightarrow> Inl err
         | Inr nonceData \<Rightarrow>
             if length nonceData = 0 then Inr 0
             else Inr (Uint64 (SetBytes nonceData)))"

definition saveLatestNonce :: "pkg \<Rightarrow> account \<Rightarrow> bytes \<Rightarrow> u64 \<Rightarrow> vm_error + account" where
  "saveLatestNonce p acnt tokenID nonce =
     (let nonceKey = getNonceKey p tokenID
      in SaveKeyValue acnt nonceKey (Bytes (SetUint64 nonce)))"

definition getAccount :: "world \<Rightarrow> bytes \<Rightarrow> vm_error + account" where
  "getAccount s address =
     (case LoadAccount s address of
        Inl err \<Rightarrow> Inl err
      | Inr (UserAccount userAcc) \<Rightarrow> Inr userAcc
      | Inr (OtherAccount _) \<Rightarrow> Inl ErrWrongTypeAssertion)"

definition checkDCTNFTCreateBurnAddInput ::
  "pkg \<Rightarrow> account option \<Rightarrow> ContractCallInput \<Rightarrow> u64 \<Rightarrow> vm_error option" where
  "checkDCTNFTCreateBurnAddInput p account vmInput gasCost =
     (case checkBasicDCTArguments p vmInput of
        Some err \<Rightarrow> Some err
      | None \<Rightarrow>
          if CallerAddr vmInput \<noteq> RecipientAddr vmInput then Some ErrInvalidRcvAddr
          else if account = None \<and> CallType vmInput \<noteq> ExecOnDestByCaller then Some ErrNilUserAccount
          else if GasProvided vmInput < gasCost then Some ErrNotEnoughGas
          else None)"

text \<open>The loop of lines 154 to 157: the lengths of the arguments, summed in \<^verbatim>\<open>uint64\<close>.\<close>

definition totalLength :: "bytes list \<Rightarrow> u64" where
  "totalLength args = foldl (\<lambda>t arg. t + of_nat (length arg)) 0 args"

definition gasToUse :: "dctNFTCreate \<Rightarrow> ContractCallInput \<Rightarrow> u64" where
  "gasToUse e vmInput = totalLength (Arguments vmInput) * StorePerByte e + funcGasCost e"

subsection \<open>ProcessBuiltinFunction\<close>

text \<open>The body of \<^verbatim>\<open>ProcessBuiltinFunction\<close> is cut where the claims need to speak of it:
  lines 115 to 118 and 124 to 141 (the least number of arguments and the account with the
  roles), lines 110 to 161 (every check up to the gas), lines 163 to 182 (royalties and
  quantity), and lines 184 to 233 (the writes and the output). The checks are in the
  order of the source, each \<^verbatim>\<open>return nil, err\<close> an \<open>Inl\<close>; they read the accounts adapter,
  the roles handler and the account's store and write nothing.\<close>

definition minNumOfArgs :: "ContractCallInput \<Rightarrow> nat" where
  "minNumOfArgs vmInput = (if CallType vmInput = ExecOnDestByCaller then 8 else 7)"

text \<open>Lines 124 to 141. In a direct call the account with the roles is \<^verbatim>\<open>acntSnd\<close>, which
  line 285 has found not to be nil (the \<open>None\<close> branch is not reachable from
  \<^verbatim>\<open>ProcessBuiltinFunction\<close>); in a call executed on the destination by the caller it is
  the account loaded for the last argument. The slices \<^verbatim>\<open>Arguments[6:]\<close> and
  \<^verbatim>\<open>Arguments[6 : lenArgs-1]\<close> are \<open>drop\<close> and \<open>take\<close>; they and the index \<^verbatim>\<open>lenArgs-1\<close>
  are within range once the number of arguments has been checked.\<close>

definition resolveAccountWithRoles ::
  "world \<Rightarrow> account option \<Rightarrow> ContractCallInput \<Rightarrow> vm_error + account \<times> bytes list" where
  "resolveAccountWithRoles s acntSnd vmInput =
     (let args = Arguments vmInput; lenArgs = length args in
      if CallType vmInput = ExecOnDestByCaller
      then
        let scAddressWithRoles = args ! (lenArgs - 1) in
        if length scAddressWithRoles \<noteq> length (CallerAddr vmInput) then Inl ErrInvalidAddressLength
        else if scAddressWithRoles = CallerAddr vmInput then Inl ErrInvalidRcvAddr
        else
          case getAccount s scAddressWithRoles of
            Inl err \<Rightarrow> Inl err
          | Inr userAcc \<Rightarrow> Inr (userAcc, take (lenArgs - 1 - 6) (drop 6 args))
      else
        case acntSnd of
          None \<Rightarrow> Inl ErrNilUserAccount
        | Some a \<Rightarrow> Inr (a, drop 6 args))"

text \<open>Lines 110 to 161: the basic check, the number of arguments, the account with the
  roles, the creation role, the latest nonce and the gas. The result is the account with
  the roles, the URIs, the latest nonce and the gas to use.\<close>

definition checkCallNFTCreate ::
  "pkg \<Rightarrow> dctNFTCreate \<Rightarrow> world \<Rightarrow> account option \<Rightarrow> ContractCallInput
     \<Rightarrow> vm_error + account \<times> bytes list \<times> u64 \<times> u64" where
  "checkCallNFTCreate p e s acntSnd vmInput =
     (case checkDCTNFTCreateBurnAddInput p acntSnd vmInput (funcGasCost e) of
        Some err \<Rightarrow> Inl err
      | None \<Rightarrow>
          if length (Arguments vmInput) < minNumOfArgs vmInput
          then Inl (Errorf ''%w, wrong number of arguments'' ErrInvalidArguments [])
          else
            case resolveAccountWithRoles s acntSnd vmInput of
              Inl err \<Rightarrow> Inl err
            | Inr (accountWithRoles, uris) \<Rightarrow>
                let tokenID = Arguments vmInput ! 0 in
                case rolesHandler e accountWithRoles (Arguments vmInput ! 0) (DCTRoleNFTCreate p) of
                  Some err \<Rightarrow> Inl err
                | None \<Rightarrow>
                    case getLatestNonce p accountWithRoles tokenID of
                      Inl err \<Rightarrow> Inl err
                    | Inr nonce \<Rightarrow>
                        if GasProvided vmInput < gasToUse e vmInput then Inl ErrNotEnoughGas
                        else Inr (accountWithRoles, uris, nonce, gasToUse e vmInput))"

text \<open>Line 163: the royalties, the low 64 bits of the big integer converted to \<^verbatim>\<open>uint32\<close>.\<close>

definition royaltiesOf :: "bytes \<Rightarrow> u32" where
  "royaltiesOf arg = ucast (Uint64 (SetBytes arg))"

text \<open>The local variables that are live at line 184, once every check has passed.\<close>

record locals =
  lAccountWithRoles :: account
  lUris :: "bytes list"
  lNonce :: u64
  lGasToUse :: u64
  lRoyalties :: u32
  lQuantity :: int

text \<open>Lines 110 to 182: the checks above, then the royalties, the quantity, the role for a
  quantity above one, and the length of the quantity.\<close>

definition validateNFTCreate ::
  "pkg \<Rightarrow> dctNFTCreate \<Rightarrow> world \<Rightarrow> account option \<Rightarrow> ContractCallInput \<Rightarrow> vm_error + locals" where
  "validateNFTCreate p e s acntSnd vmInput =
     (case checkCallNFTCreate p e s acntSnd vmInput of
        Inl err \<Rightarrow> Inl err
      | Inr (accountWithRoles, uris, nonce, gas) \<Rightarrow>
          let royalties = royaltiesOf (Arguments vmInput ! 3) in
          if royalties > MaxRoyalty
          then Inl (Errorf ''%w, invalid max royality value'' ErrInvalidArguments [])
          else
            let quantity = int (SetBytes (Arguments vmInput ! 1)) in
            if quantity \<le> 0
            then Inl (Errorf ''%w, invalid quantity'' ErrInvalidArguments [])
            else
              case (if quantity > 1
                    then rolesHandler e accountWithRoles (Arguments vmInput ! 0)
                           (DCTRoleNFTAddQuantity p)
                    else None)
              of
                Some err \<Rightarrow> Inl err
              | None \<Rightarrow>
                  if IsValueLengthCheckFlagEnabled e
                     \<and> length (Arguments vmInput ! 1) > maxLenForAddNFTQuantity p
                  then Inl (Errorf ''%w max length for quantity in nft create is %d''
                              ErrInvalidArguments [maxLenForAddNFTQuantity p])
                  else Inr \<lparr>lAccountWithRoles = accountWithRoles, lUris = uris,
                            lNonce = nonce, lGasToUse = gas,
                            lRoyalties = royalties, lQuantity = quantity\<rparr>)"

text \<open>Lines 184 to 197: the unit that is created.\<close>

definition newDCToken :: "pkg \<Rightarrow> ContractCallInput \<Rightarrow> locals \<Rightarrow> DCToken" where
  "newDCToken p vmInput l =
     \<lparr>Type = NonFungible p,
      Value = lQuantity l,
      TokenMetaData = Some
        \<lparr>Nonce = lNonce l + 1,
         Name = Arguments vmInput ! 2,
         Creator = CallerAddr vmInput,
         Royalties = lRoyalties l,
         Hash = Arguments vmInput ! 4,
         Attributes = Arguments vmInput ! 5,
         URIs = lUris l\<rparr>\<rparr>"

text \<open>Lines 220 to 231: the output record and its one log entry. When the marshaller
  fails the error is logged and the bytes that go into the entry are the nil slice.\<close>

definition newVMOutput :: "pkg \<Rightarrow> dctNFTCreate \<Rightarrow> ContractCallInput \<Rightarrow> locals \<Rightarrow> VMOutput" where
  "newVMOutput p e vmInput l =
     (let nextNonce = lNonce l + 1;
          vmOutput = \<lparr>ReturnCode = Ok,
                      GasRemaining = GasProvided vmInput - lGasToUse l,
                      ReturnData = [Bytes (SetUint64 nextNonce)],
                      Logs = []\<rparr>;
          dctDataBytes = (case marshaller e (newDCToken p vmInput l) of
                            Inl err \<Rightarrow> []
                          | Inr b \<Rightarrow> b)
      in addDCTEntryInVMOutput vmOutput (BuiltInFunctionDCTNFTCreate p) (Arguments vmInput ! 0)
           nextNonce (lQuantity l) (CallerAddr vmInput) dctDataBytes)"

text \<open>Lines 184 to 233: the four writes, in the order of the source, then the output. The
  result is the value the Go function returns, the account \<^verbatim>\<open>acntSnd\<close> as the call leaves
  it, and the collaborators' state as the call leaves it. A write that has been made
  stays made when a later one fails: the function undoes nothing.\<close>

definition persistNFTCreate ::
  "pkg \<Rightarrow> dctNFTCreate \<Rightarrow> world \<Rightarrow> account option \<Rightarrow> ContractCallInput \<Rightarrow> locals
     \<Rightarrow> (vm_error + VMOutput) \<times> account option \<times> world" where
  "persistNFTCreate p e s acntSnd vmInput l =
     (let accountWithRoles = lAccountWithRoles l;
          tokenID = Arguments vmInput ! 0;
          dctTokenKey = keyPrefix e @ Arguments vmInput ! 0;
          nextNonce = lNonce l + 1;
          dctData = newDCToken p vmInput l
      in
      case SaveDCTNFTToken s (AddressBytes accountWithRoles) accountWithRoles dctTokenKey
             nextNonce dctData True (ReturnCallAfterError vmInput) of
        Inl err \<Rightarrow> (Inl err, acntSnd, s)
      | Inr s1 \<Rightarrow>
         (case AddToLiquiditySystemAcc s1 dctTokenKey nextNonce (lQuantity l) of
            Inl err \<Rightarrow> (Inl err, acntSnd, s1)
          | Inr s2 \<Rightarrow>
             (case saveLatestNonce p accountWithRoles tokenID nextNonce of
                Inl err \<Rightarrow> (Inl err, acntSnd, s2)
              | Inr acnt' \<Rightarrow>
                  if CallType vmInput = ExecOnDestByCaller
                  then
                    (case SaveAccount s2 acnt' of
                       Inl err \<Rightarrow> (Inl err, acntSnd, s2)
                     | Inr s3 \<Rightarrow> (Inr (newVMOutput p e vmInput l), acntSnd, s3))
                  else (Inr (newVMOutput p e vmInput l), Some acnt', s2))))"

definition ProcessBuiltinFunction ::
  "pkg \<Rightarrow> dctNFTCreate \<Rightarrow> world \<Rightarrow> account option \<Rightarrow> ContractCallInput
     \<Rightarrow> (vm_error + VMOutput) \<times> account option \<times> world" where
  "ProcessBuiltinFunction p e s acntSnd vmInput =
     (case validateNFTCreate p e s acntSnd vmInput of
        Inl err \<Rightarrow> (Inl err, acntSnd, s)
      | Inr l \<Rightarrow> persistNFTCreate p e s acntSnd vmInput l)"

subsection \<open>A worked call\<close>

text \<open>The call of the spec's example (section 8): the arguments \<^verbatim>\<open>"TOKEN"\<close>, a quantity,
  \<^verbatim>\<open>"MyNFT"\<close>, the royalties, \<^verbatim>\<open>"h"\<close>, \<^verbatim>\<open>"a"\<close> and the URI \<^verbatim>\<open>"u1"\<close>, sent by an account to
  itself, with a handler that charges 2 per byte and 10 for the call. \<open>ofString\<close> is Go's
  \<^verbatim>\<open>[]byte(s)\<close>.\<close>

definition ofString :: "string \<Rightarrow> bytes" where
  "ofString str = map (\<lambda>c. of_nat (of_char c)) str"

text \<open>Modelled from the spec: the role authority is an interface only. A role grant binds
  an account, a token identifier and an operation name; its existence implies
  authorization and its absence denial.\<close>

definition rolesFromGrants ::
  "(bytes \<times> bytes \<times> bytes) list \<Rightarrow> account \<Rightarrow> bytes \<Rightarrow> bytes \<Rightarrow> vm_error option" where
  "rolesFromGrants grants acnt tokenID action =
     (if (AddressBytes acnt, tokenID, action) \<in> set grants then None
      else Some ErrActionNotAllowed)"

definition exPkg :: pkg where
  "exPkg = \<lparr>noncePrefix = ofString ''nonce'',
            DCTRoleNFTCreate = ofString ''RoleNFTCreate'',
            DCTRoleNFTAddQuantity = ofString ''RoleNFTAddQuantity'',
            BuiltInFunctionDCTNFTCreate = ofString ''DCTNFTCreate'',
            NonFungible = 1,
            maxLenForAddNFTQuantity = 32,
            checkBasicDCTArguments =
              (\<lambda>vmInput. if length (Arguments vmInput) < 2 then Some ErrInvalidArguments
                         else None)\<rparr>"

definition alice :: bytes where
  "alice = [1, 1, 1, 1]"

definition bob :: bytes where
  "bob = [2, 2, 2, 2]"

definition exGrants :: "(bytes \<times> bytes \<times> bytes) list" where
  "exGrants = [(alice, ofString ''TOKEN'', ofString ''RoleNFTCreate''),
               (bob, ofString ''TOKEN'', ofString ''RoleNFTCreate'')]"

definition exHandler :: dctNFTCreate where
  "exHandler = \<lparr>keyPrefix = ofString ''dct'', funcGasCost = 10, StorePerByte = 2,
                rolesHandler = rolesFromGrants exGrants,
                marshaller = (\<lambda>t. Inr (Bytes (nat (Value t)))),
                IsValueLengthCheckFlagEnabled = True\<rparr>"

definition exAccount :: "bytes \<Rightarrow> (bytes \<rightharpoonup> bytes) \<Rightarrow> account" where
  "exAccount a d = \<lparr>AddressBytes = a, dataTrie = d,
                    retrieveFault = (\<lambda>_. None), saveFault = (\<lambda>_ _. None)\<rparr>"

definition exWorld :: world where
  "exWorld = \<lparr>accountsDB = (\<lambda>a. if a = bob then Inr (UserAccount (exAccount bob Map.empty))
                                 else Inl (ErrCollaborator ''account not found'')),
              saveAccountFault = (\<lambda>_. None),
              savedTokens = [],
              saveTokenFault = (\<lambda>_. None),
              liquidity = [],
              liquidityFault = (\<lambda>_ _ _. None)\<rparr>"

definition exInput :: "bytes \<Rightarrow> bytes \<Rightarrow> u64 \<Rightarrow> ContractCallInput" where
  "exInput quantity royalties gas =
     \<lparr>CallerAddr = alice, RecipientAddr = alice, CallType = DirectCall,
      Arguments = [ofString ''TOKEN'', quantity, ofString ''MyNFT'', royalties, ofString ''h'',
                   ofString ''a'', ofString ''u1''],
      GasProvided = gas, ReturnCallAfterError = False\<rparr>"

text \<open>The same call executed on the destination by the caller, for the account of \<open>target\<close>.\<close>

definition exInputFor :: "bytes \<Rightarrow> u64 \<Rightarrow> ContractCallInput" where
  "exInputFor target gas =
     \<lparr>CallerAddr = alice, RecipientAddr = alice, CallType = ExecOnDestByCaller,
      Arguments = [ofString ''TOKEN'', [1], ofString ''MyNFT'', [100], ofString ''h'',
                   ofString ''a'', ofString ''u1'', target],
      GasProvided = gas, ReturnCallAfterError = False\<rparr>"

text \<open>What the worked call leaves behind when it succeeds with the new nonce \<open>nonce\<close>: the
  key of the nonce in the account's store, the unit, the output record, and the
  collaborators' state once the unit has been saved for \<open>owner\<close>.\<close>

definition exNonceKey :: bytes where
  "exNonceKey = ofString ''nonce'' @ ofString ''TOKEN''"

definition exUnit :: "u64 \<Rightarrow> DCToken" where
  "exUnit nonce =
     \<lparr>Type = 1, Value = 1,
      TokenMetaData = Some \<lparr>Nonce = nonce, Name = ofString ''MyNFT'', Creator = alice,
        Royalties = 100, Hash = ofString ''h'', Attributes = ofString ''a'',
        URIs = [ofString ''u1'']\<rparr>\<rparr>"

definition exOutput :: "u64 \<Rightarrow> u64 \<Rightarrow> bytes \<Rightarrow> VMOutput" where
  "exOutput nonce remaining payload =
     \<lparr>ReturnCode = Ok, GasRemaining = remaining, ReturnData = [Bytes (unat nonce)],
      Logs = [\<lparr>Identifier = ofString ''DCTNFTCreate'', TokenID = ofString ''TOKEN'',
               EntryNonce = nonce, Quantity = 1, Caller = alice, Payload = payload\<rparr>]\<rparr>"

definition exWorldAfter :: "account \<Rightarrow> u64 \<Rightarrow> world" where
  "exWorldAfter owner nonce =
     exWorld\<lparr>savedTokens :=
               [\<lparr>Owner = AddressBytes owner, OwnerAccount = owner,
                 TokenKey = ofString ''dct'' @ ofString ''TOKEN'', UnitNonce = nonce,
                 Unit = exUnit nonce, IsCreation = True, IsReturnWithError = False\<rparr>],
             liquidity := [(ofString ''dct'' @ ofString ''TOKEN'', nonce, 1)]\<rparr>"

text \<open>A handler whose cost per byte is \<open>2 ^ 60\<close> and whose cost for the call is 0.\<close>

definition exCostlyHandler :: dctNFTCreate where
  "exCostlyHandler = exHandler\<lparr>funcGasCost := 0, StorePerByte := 1152921504606846976\<rparr>"

text \<open>The worked call without its URI: one argument fewer than the least number.\<close>

definition exInputShort :: ContractCallInput where
  "exInputShort =
     (exInput [1] [100] 42)\<lparr>Arguments := [ofString ''TOKEN'', [1], ofString ''MyNFT'', [100],
                                           ofString ''h'', ofString ''a'']\<rparr>"

text \<open>The handler when the caller also holds the role for quantities above one, and the
  handler with a marshaller that fails.\<close>

definition exHandlerAdd :: dctNFTCreate where
  "exHandlerAdd =
     exHandler\<lparr>rolesHandler :=
       rolesFromGrants ((alice, ofString ''TOKEN'', ofString ''RoleNFTAddQuantity'') # exGrants)\<rparr>"

definition exMuteHandler :: dctNFTCreate where
  "exMuteHandler = exHandler\<lparr>marshaller := (\<lambda>_. Inl (ErrCollaborator ''marshal''))\<rparr>"

subsection \<open>The gas as the spec words it\<close>

text \<open>The spec (4.2, step 6): the byte lengths of every argument summed, multiplied by the
  per-byte storage cost, plus the base cost. Here the sum and the product are those of the
  natural numbers.\<close>

definition specGas :: "dctNFTCreate \<Rightarrow> ContractCallInput \<Rightarrow> nat" where
  "specGas e vmInput =
     sum_list (map length (Arguments vmInput)) * unat (StorePerByte e) + unat (funcGasCost e)"

section \<open>Properties\<close>

subsection \<open>Big-endian encoding and decoding\<close>

lemma SetBytes_snoc: "SetBytes (xs @ [b]) = SetBytes xs * 256 + unat b"
  by (simp add: SetBytes_def)

lemma Bytes_0: "Bytes 0 = []"
  by (simp add: Bytes.simps)

lemma Bytes_pos: "0 < n \<Longrightarrow> Bytes n = Bytes (n div 256) @ [of_nat (n mod 256)]"
  by (subst Bytes.simps) simp

lemma Bytes_Nil_iff: "Bytes n = [] \<longleftrightarrow> n = 0"
  by (subst Bytes.simps) simp

lemma SetBytes_Bytes: "SetBytes (Bytes n) = n"
proof (induction n rule: Bytes.induct)
  case (1 n)
  show ?case
  proof (cases "n = 0")
    case True
    then show ?thesis by (simp add: Bytes_0 SetBytes_def)
  next
    case False
    have "unat (of_nat (n mod 256) :: byte) = n mod 256"
      by (simp add: unat_of_nat)
    with False 1 show ?thesis
      by (simp add: Bytes_pos SetBytes_snoc)
  qed
qed

lemma Uint64_roundtrip: "Uint64 (SetBytes (Bytes (SetUint64 w))) = w"
  by (simp add: Uint64_def SetUint64_def SetBytes_Bytes)

lemma totalLength_sum: "totalLength args = of_nat (sum_list (map length args))"
proof -
  have "foldl (\<lambda>t arg. t + of_nat (length arg)) (a::u64) args
          = a + of_nat (sum_list (map length args))" for a
    by (induction args arbitrary: a) (simp_all add: algebra_simps)
  then show ?thesis by (simp add: totalLength_def)
qed

subsection \<open>What a passed check and a successful call tell\<close>

lemma checkCall_InrD:
  assumes "checkCallNFTCreate p e s acntSnd vmInput = Inr (acc, uris, nonce, gas)"
  shows "checkDCTNFTCreateBurnAddInput p acntSnd vmInput (funcGasCost e) = None"
    and "minNumOfArgs vmInput \<le> length (Arguments vmInput)"
    and "resolveAccountWithRoles s acntSnd vmInput = Inr (acc, uris)"
    and "rolesHandler e acc (Arguments vmInput ! 0) (DCTRoleNFTCreate p) = None"
    and "getLatestNonce p acc (Arguments vmInput ! 0) = Inr nonce"
    and "gas = gasToUse e vmInput"
    and "gasToUse e vmInput \<le> GasProvided vmInput"
  using assms unfolding checkCallNFTCreate_def
  by (auto simp: Let_def split: option.splits sum.splits if_splits prod.splits)

lemma validate_InrD:
  assumes "validateNFTCreate p e s acntSnd vmInput = Inr l"
  shows "checkCallNFTCreate p e s acntSnd vmInput =
           Inr (lAccountWithRoles l, lUris l, lNonce l, lGasToUse l)"
    and "lRoyalties l = royaltiesOf (Arguments vmInput ! 3)"
    and "lRoyalties l \<le> MaxRoyalty"
    and "lQuantity l = int (SetBytes (Arguments vmInput ! 1))"
    and "0 < lQuantity l"
    and "1 < lQuantity l \<Longrightarrow>
           rolesHandler e (lAccountWithRoles l) (Arguments vmInput ! 0)
             (DCTRoleNFTAddQuantity p) = None"
    and "\<not> (IsValueLengthCheckFlagEnabled e
            \<and> length (Arguments vmInput ! 1) > maxLenForAddNFTQuantity p)"
  using assms unfolding validateNFTCreate_def
  by (auto simp: Let_def split: option.splits sum.splits if_splits prod.splits)

lemma persist_InrD:
  assumes "persistNFTCreate p e s acntSnd vmInput l = (Inr out, acntSnd', s')"
  shows "out = newVMOutput p e vmInput l"
    and "\<exists>acnt' s1 s2.
           SaveDCTNFTToken s (AddressBytes (lAccountWithRoles l)) (lAccountWithRoles l)
             (keyPrefix e @ Arguments vmInput ! 0) (lNonce l + 1) (newDCToken p vmInput l) True
             (ReturnCallAfterError vmInput) = Inr s1
         \<and> AddToLiquiditySystemAcc s1 (keyPrefix e @ Arguments vmInput ! 0) (lNonce l + 1)
             (lQuantity l) = Inr s2
         \<and> saveLatestNonce p (lAccountWithRoles l) (Arguments vmInput ! 0) (lNonce l + 1)
             = Inr acnt'
         \<and> (if CallType vmInput = ExecOnDestByCaller
            then SaveAccount s2 acnt' = Inr s' \<and> acntSnd' = acntSnd
            else s' = s2 \<and> acntSnd' = Some acnt')"
  using assms unfolding persistNFTCreate_def
  by (auto simp: Let_def split: option.splits sum.splits if_splits prod.splits)

lemma process_InrD:
  assumes "ProcessBuiltinFunction p e s acntSnd vmInput = (Inr out, acntSnd', s')"
  shows "\<exists>l. validateNFTCreate p e s acntSnd vmInput = Inr l
           \<and> persistNFTCreate p e s acntSnd vmInput l = (Inr out, acntSnd', s')"
  using assms unfolding ProcessBuiltinFunction_def
  by (auto split: sum.splits)

lemmas ex_defs =
  exHandlerAdd_def exMuteHandler_def exNonceKey_def exUnit_def exOutput_def exWorldAfter_def exCostlyHandler_def
  ProcessBuiltinFunction_def validateNFTCreate_def checkCallNFTCreate_def persistNFTCreate_def
  checkDCTNFTCreateBurnAddInput_def exPkg_def exHandler_def exWorld_def exAccount_def
  exInput_def exInputFor_def alice_def bob_def exGrants_def ofString_def rolesFromGrants_def
  minNumOfArgs_def resolveAccountWithRoles_def getAccount_def LoadAccount_def SaveAccount_def
  getLatestNonce_def getNonceKey_def RetrieveValue_def gasToUse_def totalLength_def
  royaltiesOf_def Uint64_def SetBytes_def MaxRoyalty_def SaveDCTNFTToken_def
  AddToLiquiditySystemAcc_def saveLatestNonce_def SaveKeyValue_def newVMOutput_def
  newDCToken_def addDCTEntryInVMOutput_def SetUint64_def Bytes_0 Bytes_pos Let_def

lemma process_success:
  assumes "ProcessBuiltinFunction p e s acntSnd vmInput = (Inr out, acntSnd', s')"
  obtains l acnt' where
    "validateNFTCreate p e s acntSnd vmInput = Inr l"
    and "out = newVMOutput p e vmInput l"
    and "saveLatestNonce p (lAccountWithRoles l) (Arguments vmInput ! 0) (lNonce l + 1)
           = Inr acnt'"
    and "savedTokens s' = savedTokens s @
           [\<lparr>Owner = AddressBytes (lAccountWithRoles l), OwnerAccount = lAccountWithRoles l,
             TokenKey = keyPrefix e @ Arguments vmInput ! 0, UnitNonce = lNonce l + 1,
             Unit = newDCToken p vmInput l, IsCreation = True,
             IsReturnWithError = ReturnCallAfterError vmInput\<rparr>]"
    and "liquidity s' = liquidity s @
           [(keyPrefix e @ Arguments vmInput ! 0, lNonce l + 1, lQuantity l)]"
    and "CallType vmInput = ExecOnDestByCaller \<Longrightarrow>
           acntSnd' = acntSnd \<and>
           accountsDB s' = (accountsDB s)(AddressBytes acnt' := Inr (UserAccount acnt'))"
    and "CallType vmInput \<noteq> ExecOnDestByCaller \<Longrightarrow>
           acntSnd' = Some acnt' \<and> accountsDB s' = accountsDB s"
proof -
  from process_InrD [OF assms] obtain l where
    v: "validateNFTCreate p e s acntSnd vmInput = Inr l" and
    ps: "persistNFTCreate p e s acntSnd vmInput l = (Inr out, acntSnd', s')" by blast
  from persist_InrD(2) [OF ps] obtain acnt' s1 s2 where
    a: "SaveDCTNFTToken s (AddressBytes (lAccountWithRoles l)) (lAccountWithRoles l)
             (keyPrefix e @ Arguments vmInput ! 0) (lNonce l + 1) (newDCToken p vmInput l) True
             (ReturnCallAfterError vmInput) = Inr s1" and
    b: "AddToLiquiditySystemAcc s1 (keyPrefix e @ Arguments vmInput ! 0) (lNonce l + 1)
             (lQuantity l) = Inr s2" and
    c: "saveLatestNonce p (lAccountWithRoles l) (Arguments vmInput ! 0) (lNonce l + 1)
          = Inr acnt'" and
    d: "if CallType vmInput = ExecOnDestByCaller
            then SaveAccount s2 acnt' = Inr s' \<and> acntSnd' = acntSnd
            else s' = s2 \<and> acntSnd' = Some acnt'" by blast
  from a have s1: "s1 = s\<lparr>savedTokens := savedTokens s @
           [\<lparr>Owner = AddressBytes (lAccountWithRoles l), OwnerAccount = lAccountWithRoles l,
             TokenKey = keyPrefix e @ Arguments vmInput ! 0, UnitNonce = lNonce l + 1,
             Unit = newDCToken p vmInput l, IsCreation = True,
             IsReturnWithError = ReturnCallAfterError vmInput\<rparr>]\<rparr>"
    by (auto simp: SaveDCTNFTToken_def Let_def split: option.splits)
  from b have s2: "s2 = s1\<lparr>liquidity := liquidity s1 @
           [(keyPrefix e @ Arguments vmInput ! 0, lNonce l + 1, lQuantity l)]\<rparr>"
    by (auto simp: AddToLiquiditySystemAcc_def split: option.splits)
  have e1: "CallType vmInput = ExecOnDestByCaller \<Longrightarrow>
     s' = s2\<lparr>accountsDB := (accountsDB s2)(AddressBytes acnt' := Inr (UserAccount acnt'))\<rparr>"
    using d by (auto simp: SaveAccount_def split: option.splits)
  show thesis
  proof (rule that [OF v persist_InrD(1) [OF ps] c])
    show "savedTokens s' = savedTokens s @
           [\<lparr>Owner = AddressBytes (lAccountWithRoles l), OwnerAccount = lAccountWithRoles l,
             TokenKey = keyPrefix e @ Arguments vmInput ! 0, UnitNonce = lNonce l + 1,
             Unit = newDCToken p vmInput l, IsCreation = True,
             IsReturnWithError = ReturnCallAfterError vmInput\<rparr>]"
      using d e1 by (cases "CallType vmInput = ExecOnDestByCaller") (simp_all add: s1 s2)
    show "liquidity s' = liquidity s @
           [(keyPrefix e @ Arguments vmInput ! 0, lNonce l + 1, lQuantity l)]"
      using d e1 by (cases "CallType vmInput = ExecOnDestByCaller") (simp_all add: s1 s2)
    show "CallType vmInput = ExecOnDestByCaller \<Longrightarrow>
           acntSnd' = acntSnd \<and>
           accountsDB s' = (accountsDB s)(AddressBytes acnt' := Inr (UserAccount acnt'))"
      using d e1 by (simp add: s1 s2)
    show "CallType vmInput \<noteq> ExecOnDestByCaller \<Longrightarrow>
           acntSnd' = Some acnt' \<and> accountsDB s' = accountsDB s"
      using d by (simp add: s1 s2)
  qed
qed

lemma unat_Uint64: "unat (Uint64 n) = n mod 2 ^ 64"
  by (simp add: Uint64_def unat_of_nat)

lemma getLatestNonce_eq:
  "getLatestNonce p acnt tokenID =
     (case RetrieveValue acnt (getNonceKey p tokenID) of
        Inl err \<Rightarrow> Inl err
      | Inr nonceData \<Rightarrow> Inr (Uint64 (SetBytes nonceData)))"
  by (auto simp: getLatestNonce_def Let_def Uint64_def SetBytes_def split: sum.splits)

lemma unat_succ_u64: "unat (w + 1 :: u64) = (unat w + 1) mod 2 ^ 64"
  by (simp add: unat_word_ariths)

lemma lookup_after_save:
  assumes g: "getLatestNonce p acnt tokenID = Inr prior"
      and sv: "saveLatestNonce p acnt tokenID n = Inr acnt'"
  shows "getLatestNonce p acnt' tokenID = Inr n"
    and "dataTrie acnt' (getNonceKey p tokenID) = Some (Bytes (unat n))"
    and "AddressBytes acnt' = AddressBytes acnt"
proof -
  from g have rf: "retrieveFault acnt (getNonceKey p tokenID) = None"
    by (auto simp: getLatestNonce_eq RetrieveValue_def split: option.splits sum.splits)
  from sv have a': "acnt' = acnt\<lparr>dataTrie := (dataTrie acnt)(getNonceKey p tokenID \<mapsto> Bytes (unat n))\<rparr>"
    by (auto simp: saveLatestNonce_def SaveKeyValue_def SetUint64_def Let_def split: option.splits)
  show "dataTrie acnt' (getNonceKey p tokenID) = Some (Bytes (unat n))" by (simp add: a')
  show "AddressBytes acnt' = AddressBytes acnt" by (simp add: a')
  have "Uint64 (SetBytes (Bytes (unat n))) = n"
    using Uint64_roundtrip [of n] by (simp add: SetUint64_def)
  then show "getLatestNonce p acnt' tokenID = Inr n"
    using rf by (simp add: getLatestNonce_eq RetrieveValue_def a')
qed


subsection \<open>Errors of the checks\<close>

lemma persist_changes_after_save:
  assumes "persistNFTCreate p e s acntSnd vmInput l = (r, acntSnd', s')"
  shows "(acntSnd' = acntSnd \<and> s' = s)
         \<or> length (savedTokens s') = Suc (length (savedTokens s))"
  using assms
  unfolding persistNFTCreate_def SaveDCTNFTToken_def AddToLiquiditySystemAcc_def SaveAccount_def
  by (auto simp: Let_def split: option.splits sum.splits if_splits)

text \<open>Claim C3. When any of the checks of lines 110 to 182 returns an error (the basic
  check, the number of arguments, the account with the roles, the creation role, the
  latest nonce, the gas, the royalties, the quantity and its role, the length of the
  quantity), the call returns that error and has written nothing: the account passed in
  and the collaborators' state (the saved units, the supply additions, the accounts
  table) are the ones the call started with. The other way round, a call that has changed
  the account or the collaborators' state has passed every check and has saved the
  unit.\<close>

theorem validation_error_leaves_state:
  "(validateNFTCreate p e s acntSnd vmInput = Inl err \<longrightarrow>
      ProcessBuiltinFunction p e s acntSnd vmInput = (Inl err, acntSnd, s))
   \<and> (ProcessBuiltinFunction p e s acntSnd vmInput = (r, acntSnd', s')
      \<and> (acntSnd' \<noteq> acntSnd \<or> s' \<noteq> s) \<longrightarrow>
        (\<exists>l. validateNFTCreate p e s acntSnd vmInput = Inr l)
      \<and> length (savedTokens s') = Suc (length (savedTokens s)))"
proof (intro conjI impI)
  assume "validateNFTCreate p e s acntSnd vmInput = Inl err"
  then show "ProcessBuiltinFunction p e s acntSnd vmInput = (Inl err, acntSnd, s)"
    by (simp add: ProcessBuiltinFunction_def)
next
  assume h: "ProcessBuiltinFunction p e s acntSnd vmInput = (r, acntSnd', s')
      \<and> (acntSnd' \<noteq> acntSnd \<or> s' \<noteq> s)"
  then show "\<exists>l. validateNFTCreate p e s acntSnd vmInput = Inr l"
    by (cases "validateNFTCreate p e s acntSnd vmInput")
       (auto simp: ProcessBuiltinFunction_def)
next
  assume h: "ProcessBuiltinFunction p e s acntSnd vmInput = (r, acntSnd', s')
      \<and> (acntSnd' \<noteq> acntSnd \<or> s' \<noteq> s)"
  show "length (savedTokens s') = Suc (length (savedTokens s))"
  proof (cases "validateNFTCreate p e s acntSnd vmInput")
    case (Inl verr)
    with h show ?thesis by (auto simp: ProcessBuiltinFunction_def)
  next
    case (Inr l)
    with h have "persistNFTCreate p e s acntSnd vmInput l = (r, acntSnd', s')"
      by (simp add: ProcessBuiltinFunction_def)
    from persist_changes_after_save [OF this] h show ?thesis by auto
  qed
qed

theorem validation_error_leaves_state_witness:
  "ProcessBuiltinFunction exPkg exHandler exWorld (Some (exAccount alice Map.empty))
     ((exInput [1] [100] 42)\<lparr>RecipientAddr := bob\<rparr>)
     = (Inl ErrInvalidRcvAddr, Some (exAccount alice Map.empty), exWorld)
   \<and> ProcessBuiltinFunction exPkg exHandler exWorld (Some (exAccount alice Map.empty))
       exInputShort
     = (Inl (Errorf ''%w, wrong number of arguments'' ErrInvalidArguments []),
        Some (exAccount alice Map.empty), exWorld)
   \<and> ProcessBuiltinFunction exPkg exHandler exWorld (Some (exAccount alice Map.empty))
       (exInputFor [3, 3, 3, 3] 50)
     = (Inl (ErrCollaborator ''account not found''), Some (exAccount alice Map.empty), exWorld)
   \<and> ProcessBuiltinFunction exPkg exHandler exWorld (Some (exAccount [3, 3, 3, 3] Map.empty))
       (exInput [1] [100] 42)
     = (Inl ErrActionNotAllowed, Some (exAccount [3, 3, 3, 3] Map.empty), exWorld)
   \<and> ProcessBuiltinFunction exPkg exHandler exWorld
       (Some ((exAccount alice Map.empty)\<lparr>retrieveFault := (\<lambda>_. Some (ErrCollaborator ''trie''))\<rparr>))
       (exInput [1] [100] 42)
     = (Inl (ErrCollaborator ''trie''),
        Some ((exAccount alice Map.empty)\<lparr>retrieveFault := (\<lambda>_. Some (ErrCollaborator ''trie''))\<rparr>),
        exWorld)
   \<and> ProcessBuiltinFunction exPkg exHandler exWorld (Some (exAccount alice Map.empty))
       (exInput [1] [100] 41)
     = (Inl ErrNotEnoughGas, Some (exAccount alice Map.empty), exWorld)
   \<and> ProcessBuiltinFunction exPkg exHandler exWorld (Some (exAccount alice Map.empty))
       (exInput [1] [39, 17] 100)
     = (Inl (Errorf ''%w, invalid max royality value'' ErrInvalidArguments []),
        Some (exAccount alice Map.empty), exWorld)
   \<and> ProcessBuiltinFunction exPkg exHandler exWorld (Some (exAccount alice Map.empty))
       (exInput [2] [100] 42)
     = (Inl ErrActionNotAllowed, Some (exAccount alice Map.empty), exWorld)
   \<and> ProcessBuiltinFunction exPkg exHandlerAdd exWorld (Some (exAccount alice Map.empty))
       (exInput [1, 0, 0, 0, 0, 0, 0, 0, 0, 0, 0, 0, 0, 0, 0, 0, 0, 0, 0, 0, 0, 0, 0, 0, 0, 0,
                 0, 0, 0, 0, 0, 0, 0] [100] 200)
     = (Inl (Errorf ''%w max length for quantity in nft create is %d'' ErrInvalidArguments [32]),
        Some (exAccount alice Map.empty), exWorld)"
proof -
  have v1: "validateNFTCreate exPkg exHandler exWorld (Some (exAccount alice Map.empty))
     ((exInput [1] [100] 42)\<lparr>RecipientAddr := bob\<rparr>) = Inl ErrInvalidRcvAddr"
    by (simp add: ex_defs)
  have v2: "validateNFTCreate exPkg exHandler exWorld (Some (exAccount alice Map.empty))
       exInputShort = Inl (Errorf ''%w, wrong number of arguments'' ErrInvalidArguments [])"
    by (simp add: ex_defs exInputShort_def)
  have v3: "validateNFTCreate exPkg exHandler exWorld (Some (exAccount alice Map.empty))
       (exInputFor [3, 3, 3, 3] 50) = Inl (ErrCollaborator ''account not found'')"
    by (simp add: ex_defs)
  have v4: "validateNFTCreate exPkg exHandler exWorld (Some (exAccount [3, 3, 3, 3] Map.empty))
       (exInput [1] [100] 42) = Inl ErrActionNotAllowed"
    by (simp add: ex_defs)
  have v5: "validateNFTCreate exPkg exHandler exWorld
       (Some ((exAccount alice Map.empty)\<lparr>retrieveFault := (\<lambda>_. Some (ErrCollaborator ''trie''))\<rparr>))
       (exInput [1] [100] 42) = Inl (ErrCollaborator ''trie'')"
    by (simp add: ex_defs)
  have v6: "validateNFTCreate exPkg exHandler exWorld (Some (exAccount alice Map.empty))
       (exInput [1] [100] 41) = Inl ErrNotEnoughGas"
    by (simp add: ex_defs)
  have v7: "validateNFTCreate exPkg exHandler exWorld (Some (exAccount alice Map.empty))
       (exInput [1] [39, 17] 100)
     = Inl (Errorf ''%w, invalid max royality value'' ErrInvalidArguments [])"
    by (simp add: ex_defs)
  have v8: "validateNFTCreate exPkg exHandler exWorld (Some (exAccount alice Map.empty))
       (exInput [2] [100] 42) = Inl ErrActionNotAllowed"
    by (simp add: ex_defs)
  have v9: "validateNFTCreate exPkg exHandlerAdd exWorld (Some (exAccount alice Map.empty))
       (exInput [1, 0, 0, 0, 0, 0, 0, 0, 0, 0, 0, 0, 0, 0, 0, 0, 0, 0, 0, 0, 0, 0, 0, 0, 0, 0,
                 0, 0, 0, 0, 0, 0, 0] [100] 200)
     = Inl (Errorf ''%w max length for quantity in nft create is %d'' ErrInvalidArguments [32])"
    by (simp add: ex_defs)
  note t = validation_error_leaves_state [THEN conjunct1, THEN mp]
  show ?thesis
    by (intro conjI t [OF v1] t [OF v2] t [OF v3] t [OF v4] t [OF v5] t [OF v6] t [OF v7]
        t [OF v8] t [OF v9])
qed

subsection \<open>The worked call, evaluated\<close>




lemma ex_long_ok:
  "ProcessBuiltinFunction exPkg exHandler exWorld
       (Some (exAccount alice [exNonceKey \<mapsto> [1, 0, 0, 0, 0, 0, 0, 0, 5]]))
       (exInput [1] [100] 42)
     = (Inr (exOutput 6 0 [1]), Some (exAccount alice [exNonceKey \<mapsto> [6]]),
        exWorldAfter (exAccount alice [exNonceKey \<mapsto> [1, 0, 0, 0, 0, 0, 0, 0, 5]]) 6)"
  by (simp add: ex_defs)

subsection \<open>The nonce\<close>




text \<open>Claim C10. The nonce is a \<^verbatim>\<open>uint64\<close> throughout: the latest nonce is the stored
  bytes' big-endian value modulo \<open>2 ^ 64\<close> (a stored value of more than 8 bytes loses all
  but its low 64 bits), and the nonce that a successful call returns and gives to the unit
  is that value plus one, again modulo \<open>2 ^ 64\<close>.\<close>

theorem nonce_arithmetic_is_64_bit:
  "(RetrieveValue acnt (getNonceKey p tokenID) = Inr nonceData \<longrightarrow>
      (\<exists>w. getLatestNonce p acnt tokenID = Inr w \<and> unat w = SetBytes nonceData mod 2 ^ 64))
   \<and> (ProcessBuiltinFunction p e s acntSnd vmInput = (Inr out, acntSnd', s') \<longrightarrow>
      (\<exists>acc uris stored.
          resolveAccountWithRoles s acntSnd vmInput = Inr (acc, uris)
        \<and> RetrieveValue acc (getNonceKey p (Arguments vmInput ! 0)) = Inr stored
        \<and> ReturnData out = [Bytes ((SetBytes stored mod 2 ^ 64 + 1) mod 2 ^ 64)]
        \<and> map (\<lambda>u. unat (UnitNonce u)) (drop (length (savedTokens s)) (savedTokens s'))
            = [(SetBytes stored mod 2 ^ 64 + 1) mod 2 ^ 64]))"
proof (intro conjI impI)
  assume "RetrieveValue acnt (getNonceKey p tokenID) = Inr nonceData"
  then show "\<exists>w. getLatestNonce p acnt tokenID = Inr w \<and> unat w = SetBytes nonceData mod 2 ^ 64"
    by (simp add: getLatestNonce_eq unat_Uint64)
next
  assume ok: "ProcessBuiltinFunction p e s acntSnd vmInput = (Inr out, acntSnd', s')"
  from ok obtain l acnt' where
    v: "validateNFTCreate p e s acntSnd vmInput = Inr l"
    and out: "out = newVMOutput p e vmInput l"
    and "saveLatestNonce p (lAccountWithRoles l) (Arguments vmInput ! 0) (lNonce l + 1) = Inr acnt'"
    and sv: "savedTokens s' = savedTokens s @
           [\<lparr>Owner = AddressBytes (lAccountWithRoles l), OwnerAccount = lAccountWithRoles l,
             TokenKey = keyPrefix e @ Arguments vmInput ! 0, UnitNonce = lNonce l + 1,
             Unit = newDCToken p vmInput l, IsCreation = True,
             IsReturnWithError = ReturnCallAfterError vmInput\<rparr>]"
    and "liquidity s' = liquidity s @
           [(keyPrefix e @ Arguments vmInput ! 0, lNonce l + 1, lQuantity l)]"
    and "CallType vmInput = ExecOnDestByCaller \<Longrightarrow>
           acntSnd' = acntSnd \<and>
           accountsDB s' = (accountsDB s)(AddressBytes acnt' := Inr (UserAccount acnt'))"
    and "CallType vmInput \<noteq> ExecOnDestByCaller \<Longrightarrow>
           acntSnd' = Some acnt' \<and> accountsDB s' = accountsDB s"
    by (rule process_success) (rule that)
  note c = checkCall_InrD [OF validate_InrD(1) [OF v]]
  from c(5) obtain stored where
    rv: "RetrieveValue (lAccountWithRoles l) (getNonceKey p (Arguments vmInput ! 0)) = Inr stored"
    and n: "lNonce l = Uint64 (SetBytes stored)"
    by (auto simp: getLatestNonce_eq split: sum.splits)
  have u: "unat (lNonce l + 1) = (SetBytes stored mod 2 ^ 64 + 1) mod 2 ^ 64"
    by (simp add: unat_succ_u64 n unat_Uint64)
  have rd: "ReturnData out = [Bytes ((SetBytes stored mod 2 ^ 64 + 1) mod 2 ^ 64)]"
    by (simp add: out newVMOutput_def addDCTEntryInVMOutput_def SetUint64_def Let_def u)
  have st: "map (\<lambda>u. unat (UnitNonce u)) (drop (length (savedTokens s)) (savedTokens s'))
            = [(SetBytes stored mod 2 ^ 64 + 1) mod 2 ^ 64]"
    by (simp add: sv u)
  show "\<exists>acc uris stored.
          resolveAccountWithRoles s acntSnd vmInput = Inr (acc, uris)
        \<and> RetrieveValue acc (getNonceKey p (Arguments vmInput ! 0)) = Inr stored
        \<and> ReturnData out = [Bytes ((SetBytes stored mod 2 ^ 64 + 1) mod 2 ^ 64)]
        \<and> map (\<lambda>u. unat (UnitNonce u)) (drop (length (savedTokens s)) (savedTokens s'))
            = [(SetBytes stored mod 2 ^ 64 + 1) mod 2 ^ 64]"
    apply (rule exI [of _ "lAccountWithRoles l"], rule exI [of _ "lUris l"],
           rule exI [of _ stored])
    apply (intro conjI c(3) rv rd st)
    done
qed

theorem nonce_arithmetic_is_64_bit_witness:
  "RetrieveValue (exAccount alice [exNonceKey \<mapsto> [1, 0, 0, 0, 0, 0, 0, 0, 5]])
       (getNonceKey exPkg (ofString ''TOKEN'')) = Inr [1, 0, 0, 0, 0, 0, 0, 0, 5]
   \<and> SetBytes [1, 0, 0, 0, 0, 0, 0, 0, 5] = 18446744073709551621
   \<and> getLatestNonce exPkg (exAccount alice [exNonceKey \<mapsto> [1, 0, 0, 0, 0, 0, 0, 0, 5]])
       (ofString ''TOKEN'') = Inr 5
   \<and> ProcessBuiltinFunction exPkg exHandler exWorld
       (Some (exAccount alice [exNonceKey \<mapsto> [1, 0, 0, 0, 0, 0, 0, 0, 5]]))
       (exInput [1] [100] 42)
     = (Inr (exOutput 6 0 [1]), Some (exAccount alice [exNonceKey \<mapsto> [6]]),
        exWorldAfter (exAccount alice [exNonceKey \<mapsto> [1, 0, 0, 0, 0, 0, 0, 0, 5]]) 6)
   \<and> ReturnData (exOutput 6 0 [1]) = [[6]]"
proof -
  have rv: "RetrieveValue (exAccount alice [exNonceKey \<mapsto> [1, 0, 0, 0, 0, 0, 0, 0, 5]])
       (getNonceKey exPkg (ofString ''TOKEN'')) = Inr [1, 0, 0, 0, 0, 0, 0, 0, 5]"
    by (simp add: ex_defs)
  have sb: "SetBytes [1, 0, 0, 0, 0, 0, 0, 0, 5] = 18446744073709551621"
    by (simp add: SetBytes_def)
  note t = nonce_arithmetic_is_64_bit
    [of "exAccount alice [exNonceKey \<mapsto> [1, 0, 0, 0, 0, 0, 0, 0, 5]]" exPkg
        "ofString ''TOKEN''" "[1, 0, 0, 0, 0, 0, 0, 0, 5]" exHandler exWorld
        "Some (exAccount alice [exNonceKey \<mapsto> [1, 0, 0, 0, 0, 0, 0, 0, 5]])"
        "exInput [1] [100] 42" "exOutput 6 0 [1]"
        "Some (exAccount alice [exNonceKey \<mapsto> [6]])"
        "exWorldAfter (exAccount alice [exNonceKey \<mapsto> [1, 0, 0, 0, 0, 0, 0, 0, 5]]) 6"]
  from t rv obtain w where
    "getLatestNonce exPkg (exAccount alice [exNonceKey \<mapsto> [1, 0, 0, 0, 0, 0, 0, 0, 5]])
       (ofString ''TOKEN'') = Inr w"
    and "unat w = SetBytes [1, 0, 0, 0, 0, 0, 0, 0, 5] mod 2 ^ 64"
    by blast
  then have gl: "getLatestNonce exPkg (exAccount alice [exNonceKey \<mapsto> [1, 0, 0, 0, 0, 0, 0, 0, 5]])
       (ofString ''TOKEN'') = Inr 5"
    by (simp add: sb unat_eq_nat_uint word_eq_iff_unsigned [where ?'a = nat, of _ 5] flip: unat_eq_nat_uint)
  have rd: "ReturnData (exOutput 6 0 [1]) = [[6]]" by (simp add: ex_defs)
  from rv sb gl ex_long_ok rd show ?thesis by (intro conjI)
qed

subsection \<open>The gas\<close>

lemma gasToUse_of_nat: "gasToUse e vmInput = of_nat (specGas e vmInput)"
  by (simp add: gasToUse_def specGas_def totalLength_sum)

lemma unat_gasToUse: "unat (gasToUse e vmInput) = specGas e vmInput mod 2 ^ 64"
  by (simp add: gasToUse_of_nat unat_of_nat)

lemma gasToUse_GasProvided [simp]:
  "gasToUse e (vmInput\<lparr>GasProvided := g\<rparr>) = gasToUse e vmInput"
  by (simp add: gasToUse_def)

lemma checkCall_with_gas:
  assumes "checkCallNFTCreate p e s acntSnd vmInput = Inr x"
      and "checkBasicDCTArguments p (vmInput\<lparr>GasProvided := g\<rparr>) = None"
      and "funcGasCost e \<le> g" and "gasToUse e vmInput \<le> g"
  shows "checkCallNFTCreate p e s acntSnd (vmInput\<lparr>GasProvided := g\<rparr>) = Inr x"
  using assms
  unfolding checkCallNFTCreate_def checkDCTNFTCreateBurnAddInput_def minNumOfArgs_def
    resolveAccountWithRoles_def
  by (auto simp: Let_def split: option.splits sum.splits if_splits prod.splits)

lemma checkCall_low_gas:
  assumes "checkCallNFTCreate p e s acntSnd vmInput = Inr x"
      and "checkBasicDCTArguments p (vmInput\<lparr>GasProvided := g\<rparr>) = None"
      and "g < gasToUse e vmInput"
  shows "checkCallNFTCreate p e s acntSnd (vmInput\<lparr>GasProvided := g\<rparr>) = Inl ErrNotEnoughGas"
  using assms
  unfolding checkCallNFTCreate_def checkDCTNFTCreateBurnAddInput_def minNumOfArgs_def
    resolveAccountWithRoles_def
  by (auto simp: Let_def split: option.splits sum.splits if_splits prod.splits)

lemma validate_via_checkCall:
  assumes "checkCallNFTCreate p e s acntSnd vmInput' = checkCallNFTCreate p e s acntSnd vmInput"
      and "Arguments vmInput' = Arguments vmInput"
  shows "validateNFTCreate p e s acntSnd vmInput' = validateNFTCreate p e s acntSnd vmInput"
  unfolding validateNFTCreate_def assms ..

lemma newVMOutput_with_gas:
  "newVMOutput p e (vmInput\<lparr>GasProvided := g\<rparr>) l
     = (newVMOutput p e vmInput l)\<lparr>GasRemaining := g - lGasToUse l\<rparr>"
  by (simp add: newVMOutput_def newDCToken_def addDCTEntryInVMOutput_def Let_def)

lemma persist_with_gas:
  assumes "persistNFTCreate p e s acntSnd vmInput l = (Inr out, acntSnd', s')"
  shows "persistNFTCreate p e s acntSnd (vmInput\<lparr>GasProvided := g\<rparr>) l
           = (Inr (out\<lparr>GasRemaining := g - lGasToUse l\<rparr>), acntSnd', s')"
  using assms unfolding persistNFTCreate_def
  by (auto simp: Let_def newVMOutput_with_gas newDCToken_def
      split: option.splits sum.splits if_splits prod.splits)

lemma ex_ok_100:
  "ProcessBuiltinFunction exPkg exHandler exWorld (Some (exAccount alice Map.empty))
     (exInput [1] [100] 100)
   = (Inr (exOutput 1 58 [1]), Some (exAccount alice [exNonceKey \<mapsto> [1]]),
      exWorldAfter (exAccount alice Map.empty) 1)"
  by (simp add: ex_defs)

lemma ex_specGas: "specGas exHandler (exInput q r g) = 2 * (14 + length q + length r) + 10"
  by (simp add: specGas_def ex_defs)

text \<open>Claim C2, as the code has it. The claim has the gas charged equal to the sum of the
  arguments' byte lengths times the per-byte cost plus the base cost, exactly; the code
  computes that in \<^verbatim>\<open>uint64\<close>. The gas to use is \<open>specGas\<close> modulo \<open>2 ^ 64\<close>, and a call that
  succeeds is charged it (what it provided is what remains plus that amount). When
  \<open>specGas\<close> is below \<open>2 ^ 64\<close> and a call succeeds with some gas, then the same call
  providing exactly \<open>specGas\<close> succeeds with the same effects and gas remaining 0, and the
  same call providing any amount below \<open>specGas\<close> (one unit less, in particular) fails
  with \<^verbatim>\<open>ErrNotEnoughGas\<close> and leaves the account and the collaborators' state, the nonce
  with them, as they were. (The basic check that is not among the sources is assumed to
  pass for the changed gas as well.)\<close>

theorem gas_charged_mod:
  "unat (gasToUse e vmInput) = specGas e vmInput mod 2 ^ 64
   \<and> (ProcessBuiltinFunction p e s acntSnd vmInput = (Inr out, acntSnd', s') \<longrightarrow>
        unat (GasProvided vmInput) = unat (GasRemaining out) + specGas e vmInput mod 2 ^ 64
      \<and> (specGas e vmInput < 2 ^ 64
         \<and> checkBasicDCTArguments p (vmInput\<lparr>GasProvided := of_nat (specGas e vmInput)\<rparr>) = None
         \<longrightarrow> ProcessBuiltinFunction p e s acntSnd
               (vmInput\<lparr>GasProvided := of_nat (specGas e vmInput)\<rparr>)
             = (Inr (out\<lparr>GasRemaining := 0\<rparr>), acntSnd', s'))
      \<and> (specGas e vmInput < 2 ^ 64 \<and> unat g < specGas e vmInput
         \<and> checkBasicDCTArguments p (vmInput\<lparr>GasProvided := g\<rparr>) = None
         \<longrightarrow> ProcessBuiltinFunction p e s acntSnd (vmInput\<lparr>GasProvided := g\<rparr>)
             = (Inl ErrNotEnoughGas, acntSnd, s)))"
proof (intro conjI impI)
  show "unat (gasToUse e vmInput) = specGas e vmInput mod 2 ^ 64" by (rule unat_gasToUse)
next
  assume ok: "ProcessBuiltinFunction p e s acntSnd vmInput = (Inr out, acntSnd', s')"
  from process_InrD [OF ok] obtain l where
    v: "validateNFTCreate p e s acntSnd vmInput = Inr l" and
    ps: "persistNFTCreate p e s acntSnd vmInput l = (Inr out, acntSnd', s')" by blast
  note c = checkCall_InrD [OF validate_InrD(1) [OF v]]
  have "GasRemaining out = GasProvided vmInput - gasToUse e vmInput"
    by (simp add: persist_InrD(1) [OF ps] newVMOutput_def addDCTEntryInVMOutput_def Let_def c(6))
  with c(7) have "unat (GasRemaining out) = unat (GasProvided vmInput) - unat (gasToUse e vmInput)"
    by (simp add: unat_sub)
  moreover from c(7) have "unat (gasToUse e vmInput) \<le> unat (GasProvided vmInput)"
    by (simp add: word_le_nat_alt)
  ultimately show "unat (GasProvided vmInput)
      = unat (GasRemaining out) + specGas e vmInput mod 2 ^ 64"
    by (simp add: unat_gasToUse)
next
  assume ok: "ProcessBuiltinFunction p e s acntSnd vmInput = (Inr out, acntSnd', s')"
    and h: "specGas e vmInput < 2 ^ 64
         \<and> checkBasicDCTArguments p (vmInput\<lparr>GasProvided := of_nat (specGas e vmInput)\<rparr>) = None"
  define g :: u64 where "g = of_nat (specGas e vmInput)"
  from process_InrD [OF ok] obtain l where
    v: "validateNFTCreate p e s acntSnd vmInput = Inr l" and
    ps: "persistNFTCreate p e s acntSnd vmInput l = (Inr out, acntSnd', s')" by blast
  note c = checkCall_InrD [OF validate_InrD(1) [OF v]]
  have gu: "gasToUse e vmInput = g" by (simp add: g_def gasToUse_of_nat)
  from h have ug: "unat g = specGas e vmInput" by (simp add: g_def unat_of_nat)
  have "unat (funcGasCost e) \<le> specGas e vmInput" by (simp add: specGas_def)
  then have fg: "funcGasCost e \<le> g" by (simp add: word_le_nat_alt ug)
  have "checkCallNFTCreate p e s acntSnd (vmInput\<lparr>GasProvided := g\<rparr>)
          = checkCallNFTCreate p e s acntSnd vmInput"
    using checkCall_with_gas [OF validate_InrD(1) [OF v] _ fg] h
    by (simp add: validate_InrD(1) [OF v] gu g_def)
  then have "validateNFTCreate p e s acntSnd (vmInput\<lparr>GasProvided := g\<rparr>) = Inr l"
    using validate_via_checkCall [of p e s acntSnd "vmInput\<lparr>GasProvided := g\<rparr>" vmInput] v
    by simp
  moreover have "lGasToUse l = g" using c(6) gu by simp
  ultimately show "ProcessBuiltinFunction p e s acntSnd
               (vmInput\<lparr>GasProvided := of_nat (specGas e vmInput)\<rparr>)
             = (Inr (out\<lparr>GasRemaining := 0\<rparr>), acntSnd', s')"
    using persist_with_gas [OF ps, of g]
    by (simp add: ProcessBuiltinFunction_def flip: g_def)
next
  assume ok: "ProcessBuiltinFunction p e s acntSnd vmInput = (Inr out, acntSnd', s')"
    and h: "specGas e vmInput < 2 ^ 64 \<and> unat g < specGas e vmInput
         \<and> checkBasicDCTArguments p (vmInput\<lparr>GasProvided := g\<rparr>) = None"
  from process_InrD [OF ok] obtain l where
    v: "validateNFTCreate p e s acntSnd vmInput = Inr l" by blast
  from h have "g < gasToUse e vmInput"
    by (simp add: word_less_nat_alt unat_gasToUse)
  from checkCall_low_gas [OF validate_InrD(1) [OF v] _ this] h
  have "checkCallNFTCreate p e s acntSnd (vmInput\<lparr>GasProvided := g\<rparr>) = Inl ErrNotEnoughGas"
    by simp
  then show "ProcessBuiltinFunction p e s acntSnd (vmInput\<lparr>GasProvided := g\<rparr>)
             = (Inl ErrNotEnoughGas, acntSnd, s)"
    by (simp add: ProcessBuiltinFunction_def validateNFTCreate_def)
qed

theorem gas_charged_mod_witness:
  "ProcessBuiltinFunction exPkg exHandler exWorld (Some (exAccount alice Map.empty))
     (exInput [1] [100] 100)
   = (Inr (exOutput 1 58 [1]), Some (exAccount alice [exNonceKey \<mapsto> [1]]),
      exWorldAfter (exAccount alice Map.empty) 1)
   \<and> specGas exHandler (exInput [1] [100] 100) = 42
   \<and> unat (gasToUse exHandler (exInput [1] [100] 100)) = 42
   \<and> ProcessBuiltinFunction exPkg exHandler exWorld (Some (exAccount alice Map.empty))
       (exInput [1] [100] 42)
     = (Inr (exOutput 1 0 [1]), Some (exAccount alice [exNonceKey \<mapsto> [1]]),
        exWorldAfter (exAccount alice Map.empty) 1)
   \<and> ProcessBuiltinFunction exPkg exHandler exWorld (Some (exAccount alice Map.empty))
       (exInput [1] [100] 41)
     = (Inl ErrNotEnoughGas, Some (exAccount alice Map.empty), exWorld)"
proof -
  have sg: "specGas exHandler (exInput [1] [100] 100) = 42" by (simp add: ex_specGas)
  have i42: "(exInput [1] [100] 100)\<lparr>GasProvided := 42\<rparr> = exInput [1] [100] 42"
    and i41: "(exInput [1] [100] 100)\<lparr>GasProvided := 41\<rparr> = exInput [1] [100] 41"
    by (simp_all add: exInput_def)
  have cb: "checkBasicDCTArguments exPkg (exInput [1] [100] g) = None" for g
    by (simp add: exPkg_def exInput_def)
  have o: "(exOutput 1 58 [1])\<lparr>GasRemaining := 0\<rparr> = exOutput 1 0 [1]"
    by (simp add: exOutput_def)
  note t = gas_charged_mod [of exHandler "exInput [1] [100] 100" exPkg exWorld
      "Some (exAccount alice Map.empty)" "exOutput 1 58 [1]"
      "Some (exAccount alice [exNonceKey \<mapsto> [1]])" "exWorldAfter (exAccount alice Map.empty) 1" 41]
  from t ex_ok_100 show ?thesis
    by (simp add: sg i42 i41 cb o)
qed

text \<open>The claim as it is worded fails where the product wraps: at \<open>2 ^ 60\<close> per byte and
  16 bytes of arguments the exact cost is \<open>2 ^ 64\<close>, the gas to use is 0, and the call that
  provides \<open>2 ^ 64 - 1\<close>, one unit less than the exact cost, succeeds and keeps all of
  it.\<close>

theorem gas_charged_counterexample:
  "specGas exCostlyHandler (exInput [1] [100] 18446744073709551615) = 18446744073709551616
   \<and> gasToUse exCostlyHandler (exInput [1] [100] 18446744073709551615) = 0
   \<and> ProcessBuiltinFunction exPkg exCostlyHandler exWorld (Some (exAccount alice Map.empty))
       (exInput [1] [100] 18446744073709551615)
     = (Inr (exOutput 1 18446744073709551615 [1]),
        Some (exAccount alice [exNonceKey \<mapsto> [1]]),
        exWorldAfter (exAccount alice Map.empty) 1)"
  by (simp add: ex_defs specGas_def)

subsection \<open>The royalties\<close>

text \<open>Once the checks of lines 110 to 161 have passed, royalties above the maximum are
  refused with the wrapped \<^verbatim>\<open>ErrInvalidArguments\<close> and nothing is written; the royalties
  that are compared are the argument's value modulo \<open>2 ^ 32\<close>.\<close>

lemma royalties_above_max_rejected:
  assumes "checkCallNFTCreate p e s acntSnd vmInput = Inr x"
      and "MaxRoyalty < royaltiesOf (Arguments vmInput ! 3)"
  shows "ProcessBuiltinFunction p e s acntSnd vmInput
           = (Inl (Errorf ''%w, invalid max royality value'' ErrInvalidArguments []), acntSnd, s)"
  using assms
  by (simp add: ProcessBuiltinFunction_def validateNFTCreate_def Let_def split: prod.splits)

lemma unat_royaltiesOf: "unat (royaltiesOf arg) = SetBytes arg mod 2 ^ 32"
proof -
  have d: "(2::nat) ^ 32 dvd 2 ^ 64" by (rule le_imp_power_dvd) simp
  have "royaltiesOf arg = of_nat (SetBytes arg mod 2 ^ 64)"
    by (simp add: royaltiesOf_def Uint64_def unsigned_of_nat take_bit_eq_mod)
  then have "unat (royaltiesOf arg) = (SetBytes arg mod 2 ^ 64) mod 2 ^ 32"
    by (simp add: unat_of_nat)
  also have "\<dots> = SetBytes arg mod 2 ^ 32"
    by (rule mod_mod_cancel [OF d])
  finally show ?thesis .
qed

text \<open>Claim C4. The claim has every argument 3 whose big-endian value, of any size,
  exceeds 10000 refused. The code compares the value converted to \<^verbatim>\<open>uint64\<close> and then to
  \<^verbatim>\<open>uint32\<close>: the five bytes \<^verbatim>\<open>01 00 00 00 00\<close> (the value \<open>2 ^ 32\<close>) give the royalties 0, the
  call succeeds and the unit is saved with royalties 0. Royalties of exactly 10000 pass
  and 10001 are refused, as the claim says.\<close>

theorem royalties_truncated:
  "SetBytes [1, 0, 0, 0, 0] = 4294967296
   \<and> royaltiesOf [1, 0, 0, 0, 0] = 0
   \<and> ProcessBuiltinFunction exPkg exHandler exWorld (Some (exAccount alice Map.empty))
       (exInput [1] [1, 0, 0, 0, 0] 50)
     = (Inr (exOutput 1 0 [1]), Some (exAccount alice [exNonceKey \<mapsto> [1]]),
        exWorld\<lparr>savedTokens :=
                 [\<lparr>Owner = alice, OwnerAccount = exAccount alice Map.empty,
                   TokenKey = ofString ''dct'' @ ofString ''TOKEN'', UnitNonce = 1,
                   Unit = \<lparr>Type = 1, Value = 1,
                           TokenMetaData = Some \<lparr>Nonce = 1, Name = ofString ''MyNFT'',
                             Creator = alice, Royalties = 0, Hash = ofString ''h'',
                             Attributes = ofString ''a'', URIs = [ofString ''u1'']\<rparr>\<rparr>,
                   IsCreation = True, IsReturnWithError = False\<rparr>],
               liquidity := [(ofString ''dct'' @ ofString ''TOKEN'', 1, 1)]\<rparr>)
   \<and> SetBytes [39, 16] = 10000
   \<and> fst (ProcessBuiltinFunction exPkg exHandler exWorld (Some (exAccount alice Map.empty))
       (exInput [1] [39, 16] 44)) = Inr (exOutput 1 0 [1])
   \<and> SetBytes [39, 17] = 10001
   \<and> ProcessBuiltinFunction exPkg exHandler exWorld (Some (exAccount alice Map.empty))
       (exInput [1] [39, 17] 44)
     = (Inl (Errorf ''%w, invalid max royality value'' ErrInvalidArguments []),
        Some (exAccount alice Map.empty), exWorld)"
  by (simp add: ex_defs)

subsection \<open>The unit that is created\<close>


lemma created_unit_of_success:
  assumes "ProcessBuiltinFunction p e s acntSnd vmInput = (Inr out, acntSnd', s')"
  obtains u m acc where
    "savedTokens s' = savedTokens s @ [u]"
    and "TokenMetaData (Unit u) = Some m"
    and "resolveAccountWithRoles s acntSnd vmInput = Inr (acc, URIs m)"
    and "Creator m = CallerAddr vmInput"
    and "Owner u = AddressBytes acc" and "OwnerAccount u = acc"
    and "minNumOfArgs vmInput \<le> length (Arguments vmInput)"
proof -
  from assms obtain l acnt' where
    v: "validateNFTCreate p e s acntSnd vmInput = Inr l"
    and "out = newVMOutput p e vmInput l"
    and "saveLatestNonce p (lAccountWithRoles l) (Arguments vmInput ! 0) (lNonce l + 1)
           = Inr acnt'"
    and sv: "savedTokens s' = savedTokens s @
           [\<lparr>Owner = AddressBytes (lAccountWithRoles l), OwnerAccount = lAccountWithRoles l,
             TokenKey = keyPrefix e @ Arguments vmInput ! 0, UnitNonce = lNonce l + 1,
             Unit = newDCToken p vmInput l, IsCreation = True,
             IsReturnWithError = ReturnCallAfterError vmInput\<rparr>]"
    and "liquidity s' = liquidity s @
           [(keyPrefix e @ Arguments vmInput ! 0, lNonce l + 1, lQuantity l)]"
    and "CallType vmInput = ExecOnDestByCaller \<Longrightarrow>
           acntSnd' = acntSnd \<and>
           accountsDB s' = (accountsDB s)(AddressBytes acnt' := Inr (UserAccount acnt'))"
    and "CallType vmInput \<noteq> ExecOnDestByCaller \<Longrightarrow>
           acntSnd' = Some acnt' \<and> accountsDB s' = accountsDB s"
    by (rule process_success) (rule that)
  note c = checkCall_InrD [OF validate_InrD(1) [OF v]]
  show thesis
  proof (rule that [OF sv])
    show "TokenMetaData (Unit \<lparr>Owner = AddressBytes (lAccountWithRoles l), OwnerAccount = lAccountWithRoles l,
             TokenKey = keyPrefix e @ Arguments vmInput ! 0, UnitNonce = lNonce l + 1,
             Unit = newDCToken p vmInput l, IsCreation = True,
             IsReturnWithError = ReturnCallAfterError vmInput\<rparr>)
          = Some \<lparr>Nonce = lNonce l + 1, Name = Arguments vmInput ! 2,
                  Creator = CallerAddr vmInput, Royalties = lRoyalties l,
                  Hash = Arguments vmInput ! 4, Attributes = Arguments vmInput ! 5,
                  URIs = lUris l\<rparr>"
      by (simp add: newDCToken_def)
  qed (simp_all add: c)
qed





subsection \<open>The quantity\<close>






subsection \<open>Calls executed on the destination by the caller\<close>

lemma resolve_rejects_target:
  assumes "CallType vmInput = ExecOnDestByCaller" and "Arguments vmInput \<noteq> []"
      and "last (Arguments vmInput) = CallerAddr vmInput
           \<or> length (last (Arguments vmInput)) \<noteq> length (CallerAddr vmInput)"
  shows "resolveAccountWithRoles s acntSnd vmInput
           = Inl (if length (last (Arguments vmInput)) \<noteq> length (CallerAddr vmInput)
                  then ErrInvalidAddressLength else ErrInvalidRcvAddr)"
  using assms
  by (auto simp: resolveAccountWithRoles_def Let_def last_conv_nth)

lemma checkCall_resolve_Inl:
  assumes "resolveAccountWithRoles s acntSnd vmInput = Inl rerr"
  shows "\<exists>err. checkCallNFTCreate p e s acntSnd vmInput = Inl err"
  using assms unfolding checkCallNFTCreate_def
  by (auto split: option.splits)

lemma resolve_exec_InrD:
  assumes "resolveAccountWithRoles s acntSnd vmInput = Inr (acc, uris)"
      and "CallType vmInput = ExecOnDestByCaller" and "Arguments vmInput \<noteq> []"
  shows "getAccount s (last (Arguments vmInput)) = Inr acc"
    and "last (Arguments vmInput) \<noteq> CallerAddr vmInput"
    and "length (last (Arguments vmInput)) = length (CallerAddr vmInput)"
  using assms
  by (auto simp: resolveAccountWithRoles_def Let_def last_conv_nth split: if_splits sum.splits)

lemma ex_for_bob:
  "ProcessBuiltinFunction exPkg exHandler exWorld (Some (exAccount alice Map.empty))
     (exInputFor bob 50)
   = (Inr (exOutput 1 0 [1]), Some (exAccount alice Map.empty),
      (exWorldAfter (exAccount bob Map.empty) 1)
        \<lparr>accountsDB := (accountsDB exWorld)
           (bob := Inr (UserAccount (exAccount bob [exNonceKey \<mapsto> [1]])))\<rparr>)"
  by (simp add: ex_defs)

lemma ex_for_alice:
  "ProcessBuiltinFunction exPkg exHandler exWorld (Some (exAccount alice Map.empty))
     (exInputFor alice 50)
   = (Inl ErrInvalidRcvAddr, Some (exAccount alice Map.empty), exWorld)"
  "ProcessBuiltinFunction exPkg exHandler exWorld (Some (exAccount alice Map.empty))
     (exInputFor [2, 2, 2] 50)
   = (Inl ErrInvalidAddressLength, Some (exAccount alice Map.empty), exWorld)"
  by (simp_all add: ex_defs)

text \<open>Claim C7. In a call executed on the destination by the caller, when the last
  argument equals the caller's address or differs from it in length, the call is refused
  and nothing is written; once the basic check and the number of arguments have passed,
  the error is \<^verbatim>\<open>ErrInvalidAddressLength\<close> for a length that differs and \<^verbatim>\<open>ErrInvalidRcvAddr\<close>
  for the caller's own address. When such a call succeeds, the account with the roles is
  the one the adapter loaded for the last argument, which is not the caller's address;
  the unit is saved for that account and under its address; the adapter has been given
  the account to save, so that loading its address now gives the account with the new
  nonce under the nonce key; the account passed in as the sender is as it was, and so is
  every other entry of the adapter.\<close>

theorem resolved_target_mode:
  "(CallType vmInput = ExecOnDestByCaller \<and> Arguments vmInput \<noteq> []
      \<and> (last (Arguments vmInput) = CallerAddr vmInput
         \<or> length (last (Arguments vmInput)) \<noteq> length (CallerAddr vmInput)) \<longrightarrow>
        (\<exists>err. ProcessBuiltinFunction p e s acntSnd vmInput = (Inl err, acntSnd, s))
      \<and> (checkDCTNFTCreateBurnAddInput p acntSnd vmInput (funcGasCost e) = None
         \<and> 8 \<le> length (Arguments vmInput) \<longrightarrow>
           ProcessBuiltinFunction p e s acntSnd vmInput
             = (Inl (if length (last (Arguments vmInput)) \<noteq> length (CallerAddr vmInput)
                     then ErrInvalidAddressLength else ErrInvalidRcvAddr), acntSnd, s)))
   \<and> (CallType vmInput = ExecOnDestByCaller
      \<and> ProcessBuiltinFunction p e s acntSnd vmInput = (Inr out, acntSnd', s') \<longrightarrow>
        (\<exists>acc acc' u.
            getAccount s (last (Arguments vmInput)) = Inr acc
          \<and> last (Arguments vmInput) \<noteq> CallerAddr vmInput
          \<and> drop (length (savedTokens s)) (savedTokens s') = [u]
          \<and> Owner u = AddressBytes acc \<and> OwnerAccount u = acc
          \<and> (AddressBytes acc = last (Arguments vmInput) \<longrightarrow> Owner u \<noteq> CallerAddr vmInput)
          \<and> getAccount s' (AddressBytes acc) = Inr acc'
          \<and> AddressBytes acc' = AddressBytes acc
          \<and> dataTrie acc' (getNonceKey p (Arguments vmInput ! 0))
              = Some (Bytes (unat (UnitNonce u)))
          \<and> acntSnd' = acntSnd
          \<and> (\<forall>addr. addr \<noteq> AddressBytes acc \<longrightarrow> accountsDB s' addr = accountsDB s addr)))"
proof (intro conjI impI)
  assume h: "CallType vmInput = ExecOnDestByCaller \<and> Arguments vmInput \<noteq> []
      \<and> (last (Arguments vmInput) = CallerAddr vmInput
         \<or> length (last (Arguments vmInput)) \<noteq> length (CallerAddr vmInput))"
  then have "resolveAccountWithRoles s acntSnd vmInput
           = Inl (if length (last (Arguments vmInput)) \<noteq> length (CallerAddr vmInput)
                  then ErrInvalidAddressLength else ErrInvalidRcvAddr)"
    by (intro resolve_rejects_target) auto
  from checkCall_resolve_Inl [OF this] obtain err where
    "checkCallNFTCreate p e s acntSnd vmInput = Inl err" by blast
  then show "\<exists>err. ProcessBuiltinFunction p e s acntSnd vmInput = (Inl err, acntSnd, s)"
    by (simp add: ProcessBuiltinFunction_def validateNFTCreate_def)
next
  assume h: "CallType vmInput = ExecOnDestByCaller \<and> Arguments vmInput \<noteq> []
      \<and> (last (Arguments vmInput) = CallerAddr vmInput
         \<or> length (last (Arguments vmInput)) \<noteq> length (CallerAddr vmInput))"
    and k: "checkDCTNFTCreateBurnAddInput p acntSnd vmInput (funcGasCost e) = None
         \<and> 8 \<le> length (Arguments vmInput)"
  from h have "resolveAccountWithRoles s acntSnd vmInput
           = Inl (if length (last (Arguments vmInput)) \<noteq> length (CallerAddr vmInput)
                  then ErrInvalidAddressLength else ErrInvalidRcvAddr)"
    by (intro resolve_rejects_target) auto
  with h k show "ProcessBuiltinFunction p e s acntSnd vmInput
             = (Inl (if length (last (Arguments vmInput)) \<noteq> length (CallerAddr vmInput)
                     then ErrInvalidAddressLength else ErrInvalidRcvAddr), acntSnd, s)"
    by (simp add: ProcessBuiltinFunction_def validateNFTCreate_def checkCallNFTCreate_def
        minNumOfArgs_def)
next
  assume h: "CallType vmInput = ExecOnDestByCaller
      \<and> ProcessBuiltinFunction p e s acntSnd vmInput = (Inr out, acntSnd', s')"
  then have ex: "CallType vmInput = ExecOnDestByCaller"
    and ok: "ProcessBuiltinFunction p e s acntSnd vmInput = (Inr out, acntSnd', s')" by auto
  from ok obtain l acnt' where
    v: "validateNFTCreate p e s acntSnd vmInput = Inr l"
    and "out = newVMOutput p e vmInput l"
    and sn: "saveLatestNonce p (lAccountWithRoles l) (Arguments vmInput ! 0) (lNonce l + 1)
           = Inr acnt'"
    and sv: "savedTokens s' = savedTokens s @
           [\<lparr>Owner = AddressBytes (lAccountWithRoles l), OwnerAccount = lAccountWithRoles l,
             TokenKey = keyPrefix e @ Arguments vmInput ! 0, UnitNonce = lNonce l + 1,
             Unit = newDCToken p vmInput l, IsCreation = True,
             IsReturnWithError = ReturnCallAfterError vmInput\<rparr>]"
    and "liquidity s' = liquidity s @
           [(keyPrefix e @ Arguments vmInput ! 0, lNonce l + 1, lQuantity l)]"
    and exd: "CallType vmInput = ExecOnDestByCaller \<Longrightarrow>
           acntSnd' = acntSnd \<and>
           accountsDB s' = (accountsDB s)(AddressBytes acnt' := Inr (UserAccount acnt'))"
    and "CallType vmInput \<noteq> ExecOnDestByCaller \<Longrightarrow>
           acntSnd' = Some acnt' \<and> accountsDB s' = accountsDB s"
    by (rule process_success) (rule that)
  note c = checkCall_InrD [OF validate_InrD(1) [OF v]]
  from c(2) ex have ne: "Arguments vmInput \<noteq> []" by (auto simp: minNumOfArgs_def)
  note r = resolve_exec_InrD [OF c(3) ex ne]
  note la = lookup_after_save [OF c(5) sn]
  define u where "u = \<lparr>Owner = AddressBytes (lAccountWithRoles l), OwnerAccount = lAccountWithRoles l,
             TokenKey = keyPrefix e @ Arguments vmInput ! 0, UnitNonce = lNonce l + 1,
             Unit = newDCToken p vmInput l, IsCreation = True,
             IsReturnWithError = ReturnCallAfterError vmInput\<rparr>"
  have 1: "drop (length (savedTokens s)) (savedTokens s') = [u]" by (simp add: sv u_def)
  have 2: "Owner u = AddressBytes (lAccountWithRoles l)" "OwnerAccount u = lAccountWithRoles l"
    by (simp_all add: u_def)
  have 3: "AddressBytes (lAccountWithRoles l) = last (Arguments vmInput) \<longrightarrow>
             Owner u \<noteq> CallerAddr vmInput"
    using r(2) by (simp add: u_def)
  have 4: "getAccount s' (AddressBytes (lAccountWithRoles l)) = Inr acnt'"
    using exd [OF ex] la(3) by (simp add: getAccount_def LoadAccount_def)
  have 5: "dataTrie acnt' (getNonceKey p (Arguments vmInput ! 0))
              = Some (Bytes (unat (UnitNonce u)))"
    using la(2) by (simp add: u_def)
  have 6: "acntSnd' = acntSnd" using exd [OF ex] by simp
  have 7: "\<forall>addr. addr \<noteq> AddressBytes (lAccountWithRoles l) \<longrightarrow>
             accountsDB s' addr = accountsDB s addr"
    using exd [OF ex] la(3) by simp
  show "\<exists>acc acc' u.
            getAccount s (last (Arguments vmInput)) = Inr acc
          \<and> last (Arguments vmInput) \<noteq> CallerAddr vmInput
          \<and> drop (length (savedTokens s)) (savedTokens s') = [u]
          \<and> Owner u = AddressBytes acc \<and> OwnerAccount u = acc
          \<and> (AddressBytes acc = last (Arguments vmInput) \<longrightarrow> Owner u \<noteq> CallerAddr vmInput)
          \<and> getAccount s' (AddressBytes acc) = Inr acc'
          \<and> AddressBytes acc' = AddressBytes acc
          \<and> dataTrie acc' (getNonceKey p (Arguments vmInput ! 0))
              = Some (Bytes (unat (UnitNonce u)))
          \<and> acntSnd' = acntSnd
          \<and> (\<forall>addr. addr \<noteq> AddressBytes acc \<longrightarrow> accountsDB s' addr = accountsDB s addr)"
    apply (rule exI [of _ "lAccountWithRoles l"], rule exI [of _ acnt'], rule exI [of _ u])
    apply (intro conjI r(1) r(2) 1 2 3 4 la(3) 5 6 7)
    done
qed

theorem resolved_target_mode_witness:
  "ProcessBuiltinFunction exPkg exHandler exWorld (Some (exAccount alice Map.empty))
     (exInputFor alice 50)
   = (Inl ErrInvalidRcvAddr, Some (exAccount alice Map.empty), exWorld)
   \<and> ProcessBuiltinFunction exPkg exHandler exWorld (Some (exAccount alice Map.empty))
     (exInputFor [2, 2, 2] 50)
   = (Inl ErrInvalidAddressLength, Some (exAccount alice Map.empty), exWorld)
   \<and> ProcessBuiltinFunction exPkg exHandler exWorld (Some (exAccount alice Map.empty))
     (exInputFor bob 50)
   = (Inr (exOutput 1 0 [1]), Some (exAccount alice Map.empty),
      (exWorldAfter (exAccount bob Map.empty) 1)
        \<lparr>accountsDB := (accountsDB exWorld)
           (bob := Inr (UserAccount (exAccount bob [exNonceKey \<mapsto> [1]])))\<rparr>)
   \<and> getAccount exWorld bob = Inr (exAccount bob Map.empty)
   \<and> getAccount
       ((exWorldAfter (exAccount bob Map.empty) 1)
          \<lparr>accountsDB := (accountsDB exWorld)
             (bob := Inr (UserAccount (exAccount bob [exNonceKey \<mapsto> [1]])))\<rparr>) bob
     = Inr (exAccount bob [exNonceKey \<mapsto> [1]])
   \<and> map Owner (savedTokens (exWorldAfter (exAccount bob Map.empty) 1)) = [bob]
   \<and> bob \<noteq> alice"
proof -
  have pre: "CallType (exInputFor t 50) = ExecOnDestByCaller"
    "Arguments (exInputFor t 50) \<noteq> []"
    "last (Arguments (exInputFor t 50)) = t"
    "CallerAddr (exInputFor t 50) = alice"
    "8 \<le> length (Arguments (exInputFor t 50))"
    "checkDCTNFTCreateBurnAddInput exPkg (Some (exAccount alice Map.empty)) (exInputFor t 50)
       (funcGasCost exHandler) = None" for t
    by (simp_all add: ex_defs)
  note t1 = resolved_target_mode [of "exInputFor alice 50" exPkg exHandler exWorld
      "Some (exAccount alice Map.empty)" "exOutput 1 0 [1]" None exWorld]
  note t2 = resolved_target_mode [of "exInputFor [2, 2, 2] 50" exPkg exHandler exWorld
      "Some (exAccount alice Map.empty)" "exOutput 1 0 [1]" None exWorld]
  have ln: "length alice = 4" by (simp add: alice_def)
  note t3 = resolved_target_mode [of "exInputFor bob 50" exPkg exHandler exWorld
      "Some (exAccount alice Map.empty)" "exOutput 1 0 [1]" "Some (exAccount alice Map.empty)"
      "(exWorldAfter (exAccount bob Map.empty) 1)
        \<lparr>accountsDB := (accountsDB exWorld)
           (bob := Inr (UserAccount (exAccount bob [exNonceKey \<mapsto> [1]])))\<rparr>"]
  from t1 have a: "ProcessBuiltinFunction exPkg exHandler exWorld (Some (exAccount alice Map.empty))
     (exInputFor alice 50)
   = (Inl ErrInvalidRcvAddr, Some (exAccount alice Map.empty), exWorld)"
    by (simp add: pre)
  from t2 have b: "ProcessBuiltinFunction exPkg exHandler exWorld (Some (exAccount alice Map.empty))
     (exInputFor [2, 2, 2] 50)
   = (Inl ErrInvalidAddressLength, Some (exAccount alice Map.empty), exWorld)"
    by (simp add: pre ln)
  have g0: "getAccount exWorld bob = Inr (exAccount bob Map.empty)"
    by (simp add: ex_defs)
  from t3 ex_for_bob obtain acc acc' u where
    c1: "getAccount exWorld (last (Arguments (exInputFor bob 50))) = Inr acc"
    and c2: "last (Arguments (exInputFor bob 50)) \<noteq> CallerAddr (exInputFor bob 50)"
    and c3: "drop (length (savedTokens exWorld))
              (savedTokens ((exWorldAfter (exAccount bob Map.empty) 1)
                \<lparr>accountsDB := (accountsDB exWorld)
                  (bob := Inr (UserAccount (exAccount bob [exNonceKey \<mapsto> [1]])))\<rparr>)) = [u]"
    and c4: "Owner u = AddressBytes acc"
    and c5: "getAccount ((exWorldAfter (exAccount bob Map.empty) 1)
                \<lparr>accountsDB := (accountsDB exWorld)
                  (bob := Inr (UserAccount (exAccount bob [exNonceKey \<mapsto> [1]])))\<rparr>)
              (AddressBytes acc) = Inr acc'"
    and c6: "dataTrie acc' (getNonceKey exPkg (Arguments (exInputFor bob 50) ! 0))
              = Some (Bytes (unat (UnitNonce u)))"
    by (simp only: pre(1) simp_thms) (elim exE conjE, assumption)
  from c1 g0 have acc: "acc = exAccount bob Map.empty" by (simp add: pre)
  from c2 have ne: "bob \<noteq> alice" by (simp add: pre)
  from c3 have sv: "savedTokens (exWorldAfter (exAccount bob Map.empty) 1) = [u]"
    by (simp add: exWorld_def exWorldAfter_def)
  from c4 sv have ow: "map Owner (savedTokens (exWorldAfter (exAccount bob Map.empty) 1)) = [bob]"
    by (simp add: acc exAccount_def)
  have ga: "getAccount
       ((exWorldAfter (exAccount bob Map.empty) 1)
          \<lparr>accountsDB := (accountsDB exWorld)
             (bob := Inr (UserAccount (exAccount bob [exNonceKey \<mapsto> [1]])))\<rparr>) bob
     = Inr (exAccount bob [exNonceKey \<mapsto> [1]])"
    by (simp add: getAccount_def LoadAccount_def)
  from a b ex_for_bob g0 ga ow ne show ?thesis by (intro conjI)
qed

text \<open>Claim C8. For every call that succeeds, in either mode, the creator in the metadata
  of the one unit the call saved is the caller's address of the call record. In a call
  executed on the destination by the caller the creator is therefore not the last
  argument, the address of the account the unit is saved for.\<close>

theorem creator_is_caller:
  assumes "ProcessBuiltinFunction p e s acntSnd vmInput = (Inr out, acntSnd', s')"
  shows "map (\<lambda>u. map_option Creator (TokenMetaData (Unit u)))
           (drop (length (savedTokens s)) (savedTokens s')) = [Some (CallerAddr vmInput)]
         \<and> (CallType vmInput = ExecOnDestByCaller \<longrightarrow>
              CallerAddr vmInput \<noteq> last (Arguments vmInput)
            \<and> (\<exists>acc. getAccount s (last (Arguments vmInput)) = Inr acc
                   \<and> map Owner (drop (length (savedTokens s)) (savedTokens s'))
                       = [AddressBytes acc]))"
proof -
  from assms obtain u m acc where
    sv: "savedTokens s' = savedTokens s @ [u]"
    and md: "TokenMetaData (Unit u) = Some m"
    and rs: "resolveAccountWithRoles s acntSnd vmInput = Inr (acc, URIs m)"
    and cr: "Creator m = CallerAddr vmInput"
    and ow: "Owner u = AddressBytes acc" and "OwnerAccount u = acc"
    and mn: "minNumOfArgs vmInput \<le> length (Arguments vmInput)"
    by (rule created_unit_of_success) (rule that)
  have 1: "map (\<lambda>u. map_option Creator (TokenMetaData (Unit u)))
           (drop (length (savedTokens s)) (savedTokens s')) = [Some (CallerAddr vmInput)]"
    by (simp add: sv md cr)
  have 2: "CallType vmInput = ExecOnDestByCaller \<longrightarrow>
              CallerAddr vmInput \<noteq> last (Arguments vmInput)
            \<and> (\<exists>acc. getAccount s (last (Arguments vmInput)) = Inr acc
                   \<and> map Owner (drop (length (savedTokens s)) (savedTokens s'))
                       = [AddressBytes acc])"
  proof
    assume ex: "CallType vmInput = ExecOnDestByCaller"
    with mn have ne: "Arguments vmInput \<noteq> []" by (auto simp: minNumOfArgs_def)
    note r = resolve_exec_InrD [OF rs ex ne]
    from r(1) r(2) ow sv
    show "CallerAddr vmInput \<noteq> last (Arguments vmInput)
            \<and> (\<exists>acc. getAccount s (last (Arguments vmInput)) = Inr acc
                   \<and> map Owner (drop (length (savedTokens s)) (savedTokens s'))
                       = [AddressBytes acc])"
      by auto
  qed
  from 1 2 show ?thesis by (rule conjI)
qed

theorem creator_is_caller_witness:
  "ProcessBuiltinFunction exPkg exHandler exWorld None (exInputFor bob 50)
   = (Inr (exOutput 1 0 [1]), None,
      (exWorldAfter (exAccount bob Map.empty) 1)
        \<lparr>accountsDB := (accountsDB exWorld)
           (bob := Inr (UserAccount (exAccount bob [exNonceKey \<mapsto> [1]])))\<rparr>)
   \<and> map (\<lambda>u. map_option Creator (TokenMetaData (Unit u)))
       (savedTokens (exWorldAfter (exAccount bob Map.empty) 1)) = [Some alice]
   \<and> CallerAddr (exInputFor bob 50) = alice
   \<and> last (Arguments (exInputFor bob 50)) = bob
   \<and> alice \<noteq> bob"
proof -
  have ok: "ProcessBuiltinFunction exPkg exHandler exWorld None (exInputFor bob 50)
   = (Inr (exOutput 1 0 [1]), None,
      (exWorldAfter (exAccount bob Map.empty) 1)
        \<lparr>accountsDB := (accountsDB exWorld)
           (bob := Inr (UserAccount (exAccount bob [exNonceKey \<mapsto> [1]])))\<rparr>)"
    by (simp add: ex_defs)
  have pre: "CallType (exInputFor bob 50) = ExecOnDestByCaller"
    "last (Arguments (exInputFor bob 50)) = bob"
    "CallerAddr (exInputFor bob 50) = alice"
    by (simp_all add: ex_defs)
  have d: "drop (length (savedTokens exWorld))
             (savedTokens (exWorldAfter (exAccount bob Map.empty) 1))
           = savedTokens (exWorldAfter (exAccount bob Map.empty) 1)"
    by (simp add: exWorld_def exWorldAfter_def)
  have ne: "alice \<noteq> bob" by (simp add: alice_def bob_def)
  from creator_is_caller [OF ok] ok show ?thesis
    by (simp add: pre d ne)
qed

subsection \<open>The marshaller\<close>

lemma checkCall_marshaller [simp]:
  "checkCallNFTCreate p (e\<lparr>marshaller := m\<rparr>) s acntSnd vmInput
     = checkCallNFTCreate p e s acntSnd vmInput"
  unfolding checkCallNFTCreate_def gasToUse_def
  by (auto simp: Let_def split: option.splits sum.splits prod.splits)

lemma validate_marshaller [simp]:
  "validateNFTCreate p (e\<lparr>marshaller := m\<rparr>) s acntSnd vmInput
     = validateNFTCreate p e s acntSnd vmInput"
  unfolding validateNFTCreate_def checkCall_marshaller
  by (auto simp: Let_def split: option.splits sum.splits prod.splits)

lemma newVMOutput_marshaller_fails:
  assumes "m (newDCToken p vmInput l) = Inl merr"
  shows "newVMOutput p (e\<lparr>marshaller := m\<rparr>) vmInput l
     = (newVMOutput p e vmInput l)
         \<lparr>Logs := map (\<lambda>en. en\<lparr>Payload := []\<rparr>) (Logs (newVMOutput p e vmInput l))\<rparr>"
  using assms by (simp add: newVMOutput_def addDCTEntryInVMOutput_def Let_def)

lemma persist_marshaller_fails:
  assumes "persistNFTCreate p e s acntSnd vmInput l = (Inr out, acntSnd', s')"
      and "m (newDCToken p vmInput l) = Inl merr"
  shows "persistNFTCreate p (e\<lparr>marshaller := m\<rparr>) s acntSnd vmInput l
           = (Inr (out\<lparr>Logs := map (\<lambda>en. en\<lparr>Payload := []\<rparr>) (Logs out)\<rparr>), acntSnd', s')"
  using assms unfolding persistNFTCreate_def
  by (auto simp: Let_def newVMOutput_marshaller_fails
      split: option.splits sum.splits if_splits prod.splits)

text \<open>Claim C9. Take a call that succeeds, and any marshaller that fails on the unit the
  call saved. With that marshaller in the handler the call still succeeds: the account
  and the collaborators' state it leaves are the same, and so is the output record (the
  return code \<^verbatim>\<open>Ok\<close>, the return data with the new nonce, the gas remaining) but for the
  payload of its one log entry, which is empty. The marshaller is the only step that may
  fail in a call that succeeds: every check has passed and each of the writes (the unit,
  the supply, the nonce and, in a call executed on the destination, the account) has
  returned without an error.\<close>

theorem marshal_failure_is_not_fatal:
  assumes "ProcessBuiltinFunction p e s acntSnd vmInput = (Inr out, acntSnd', s')"
      and "m (Unit (last (savedTokens s'))) = Inl merr"
  shows "ProcessBuiltinFunction p (e\<lparr>marshaller := m\<rparr>) s acntSnd vmInput
           = (Inr (out\<lparr>Logs := map (\<lambda>en. en\<lparr>Payload := []\<rparr>) (Logs out)\<rparr>), acntSnd', s')
         \<and> ReturnCode out = Ok
         \<and> length (Logs out) = 1
         \<and> (\<exists>l s1 s2 acnt'.
               validateNFTCreate p e s acntSnd vmInput = Inr l
             \<and> SaveDCTNFTToken s (AddressBytes (lAccountWithRoles l)) (lAccountWithRoles l)
                 (keyPrefix e @ Arguments vmInput ! 0) (lNonce l + 1) (newDCToken p vmInput l)
                 True (ReturnCallAfterError vmInput) = Inr s1
             \<and> AddToLiquiditySystemAcc s1 (keyPrefix e @ Arguments vmInput ! 0) (lNonce l + 1)
                 (lQuantity l) = Inr s2
             \<and> saveLatestNonce p (lAccountWithRoles l) (Arguments vmInput ! 0) (lNonce l + 1)
                 = Inr acnt'
             \<and> (if CallType vmInput = ExecOnDestByCaller then SaveAccount s2 acnt' = Inr s'
                 else s' = s2)
             \<and> ReturnData out = [Bytes (unat (lNonce l + 1))]
             \<and> GasRemaining out = GasProvided vmInput - lGasToUse l)"
proof -
  from process_InrD [OF assms(1)] obtain l where
    v: "validateNFTCreate p e s acntSnd vmInput = Inr l" and
    ps: "persistNFTCreate p e s acntSnd vmInput l = (Inr out, acntSnd', s')" by blast
  from assms(1) obtain l' acnt'' where
    v': "validateNFTCreate p e s acntSnd vmInput = Inr l'"
    and "out = newVMOutput p e vmInput l'"
    and "saveLatestNonce p (lAccountWithRoles l') (Arguments vmInput ! 0) (lNonce l' + 1)
           = Inr acnt''"
    and sv: "savedTokens s' = savedTokens s @
           [\<lparr>Owner = AddressBytes (lAccountWithRoles l'), OwnerAccount = lAccountWithRoles l',
             TokenKey = keyPrefix e @ Arguments vmInput ! 0, UnitNonce = lNonce l' + 1,
             Unit = newDCToken p vmInput l', IsCreation = True,
             IsReturnWithError = ReturnCallAfterError vmInput\<rparr>]"
    and "liquidity s' = liquidity s @
           [(keyPrefix e @ Arguments vmInput ! 0, lNonce l' + 1, lQuantity l')]"
    and "CallType vmInput = ExecOnDestByCaller \<Longrightarrow>
           acntSnd' = acntSnd \<and>
           accountsDB s' = (accountsDB s)(AddressBytes acnt'' := Inr (UserAccount acnt''))"
    and "CallType vmInput \<noteq> ExecOnDestByCaller \<Longrightarrow>
           acntSnd' = Some acnt'' \<and> accountsDB s' = accountsDB s"
    by (rule process_success) (rule that)
  from v v' have "l' = l" by simp
  with sv have "Unit (last (savedTokens s')) = newDCToken p vmInput l" by simp
  with assms(2) have mf: "m (newDCToken p vmInput l) = Inl merr" by simp
  have 1: "ProcessBuiltinFunction p (e\<lparr>marshaller := m\<rparr>) s acntSnd vmInput
           = (Inr (out\<lparr>Logs := map (\<lambda>en. en\<lparr>Payload := []\<rparr>) (Logs out)\<rparr>), acntSnd', s')"
    using persist_marshaller_fails [where m = m, OF ps mf] v
    by (simp add: ProcessBuiltinFunction_def)
  note o = persist_InrD(1) [OF ps]
  have 2: "ReturnCode out = Ok" and 3: "length (Logs out) = 1"
    and 4: "ReturnData out = [Bytes (unat (lNonce l + 1))]"
    and 5: "GasRemaining out = GasProvided vmInput - lGasToUse l"
    by (simp_all add: o newVMOutput_def addDCTEntryInVMOutput_def Let_def SetUint64_def)
  from persist_InrD(2) [OF ps] obtain acnt' s1 s2 where
    a: "SaveDCTNFTToken s (AddressBytes (lAccountWithRoles l)) (lAccountWithRoles l)
             (keyPrefix e @ Arguments vmInput ! 0) (lNonce l + 1) (newDCToken p vmInput l) True
             (ReturnCallAfterError vmInput) = Inr s1" and
    b: "AddToLiquiditySystemAcc s1 (keyPrefix e @ Arguments vmInput ! 0) (lNonce l + 1)
             (lQuantity l) = Inr s2" and
    c: "saveLatestNonce p (lAccountWithRoles l) (Arguments vmInput ! 0) (lNonce l + 1)
          = Inr acnt'" and
    d: "if CallType vmInput = ExecOnDestByCaller
            then SaveAccount s2 acnt' = Inr s' \<and> acntSnd' = acntSnd
            else s' = s2 \<and> acntSnd' = Some acnt'" by blast
  from d have d': "if CallType vmInput = ExecOnDestByCaller then SaveAccount s2 acnt' = Inr s'
                 else s' = s2" by (simp split: if_splits)
  have 6: "\<exists>l s1 s2 acnt'.
               validateNFTCreate p e s acntSnd vmInput = Inr l
             \<and> SaveDCTNFTToken s (AddressBytes (lAccountWithRoles l)) (lAccountWithRoles l)
                 (keyPrefix e @ Arguments vmInput ! 0) (lNonce l + 1) (newDCToken p vmInput l)
                 True (ReturnCallAfterError vmInput) = Inr s1
             \<and> AddToLiquiditySystemAcc s1 (keyPrefix e @ Arguments vmInput ! 0) (lNonce l + 1)
                 (lQuantity l) = Inr s2
             \<and> saveLatestNonce p (lAccountWithRoles l) (Arguments vmInput ! 0) (lNonce l + 1)
                 = Inr acnt'
             \<and> (if CallType vmInput = ExecOnDestByCaller then SaveAccount s2 acnt' = Inr s'
                 else s' = s2)
             \<and> ReturnData out = [Bytes (unat (lNonce l + 1))]
             \<and> GasRemaining out = GasProvided vmInput - lGasToUse l"
    apply (rule exI [of _ l], rule exI [of _ s1], rule exI [of _ s2], rule exI [of _ acnt'])
    apply (intro conjI v a b c d' 4 5)
    done
  from 1 2 3 6 show ?thesis by (intro conjI)
qed

theorem marshal_failure_is_not_fatal_witness:
  "ProcessBuiltinFunction exPkg exHandler exWorld (Some (exAccount alice Map.empty))
     (exInput [1] [100] 100)
   = (Inr (exOutput 1 58 [1]), Some (exAccount alice [exNonceKey \<mapsto> [1]]),
      exWorldAfter (exAccount alice Map.empty) 1)
   \<and> marshaller exMuteHandler (exUnit 1) = Inl (ErrCollaborator ''marshal'')
   \<and> ProcessBuiltinFunction exPkg exMuteHandler exWorld (Some (exAccount alice Map.empty))
     (exInput [1] [100] 100)
   = (Inr (exOutput 1 58 []), Some (exAccount alice [exNonceKey \<mapsto> [1]]),
      exWorldAfter (exAccount alice Map.empty) 1)
   \<and> ReturnData (exOutput 1 58 []) = [[1]]
   \<and> map Payload (Logs (exOutput 1 58 [])) = [[]]"
proof -
  have m: "exHandler\<lparr>marshaller := (\<lambda>_. Inl (ErrCollaborator ''marshal''))\<rparr> = exMuteHandler"
    by (simp add: exMuteHandler_def)
  have o: "(exOutput 1 58 [1])\<lparr>Logs := map (\<lambda>en. en\<lparr>Payload := []\<rparr>) (Logs (exOutput 1 58 [1]))\<rparr>
             = exOutput 1 58 []"
    by (simp add: exOutput_def)
  have f: "marshaller exMuteHandler (exUnit 1) = Inl (ErrCollaborator ''marshal'')"
    by (simp add: exMuteHandler_def)
  have r: "ReturnData (exOutput 1 58 []) = [[1]]"
    "map Payload (Logs (exOutput 1 58 [])) = [[]]"
    by (simp_all add: ex_defs)
  from marshal_failure_is_not_fatal
    [where m = "\<lambda>_. Inl (ErrCollaborator ''marshal'')", OF ex_ok_100 refl]
  have "ProcessBuiltinFunction exPkg exMuteHandler exWorld (Some (exAccount alice Map.empty))
     (exInput [1] [100] 100)
   = (Inr (exOutput 1 58 []), Some (exAccount alice [exNonceKey \<mapsto> [1]]),
      exWorldAfter (exAccount alice Map.empty) 1)"
    by (simp add: m o)
  with ex_ok_100 f r show ?thesis by (intro conjI)
qed

end
